theory Spec2Isabelle
  imports Main
begin

section \<open>Values exchanged by the controllers\<close>

text \<open>
  The controllers of \<^verbatim>\<open>controllers/bias_and_fairness.py\<close> move JSON-like Python
  values around: the request body \<^verbatim>\<open>config_data\<close>, the configuration built from it,
  the results artifact and the status entries. A Python dict is an association list in
  insertion order (keys distinct), read with \<^verbatim>\<open>dict.get\<close>. A float literal of the source
  is kept as its decimal literal: \<open>JFloat m e\<close> stands for \<open>m / 10 ^ e\<close>.
\<close>

datatype json =
    JNull
  | JBool bool
  | JInt int
  | JFloat int nat
  | JStr string
  | JList "json list"
  | JDict "(string \<times> json) list"

text \<open>Python's \<^verbatim>\<open>str\<close> of an integer, as the f-strings of the source print it.\<close>

fun digits :: "nat \<Rightarrow> string" where
  "digits n =
     (if n < 10 then [''0123456789'' ! n]
      else digits (n div 10) @ [''0123456789'' ! (n mod 10)])"

declare digits.simps [simp del]

definition str_int :: "int \<Rightarrow> string" where
  "str_int i = (if i < 0 then CHR ''-'' # digits (nat (- i)) else digits (nat i))"

text \<open>
  An exception is either FastAPI's \<^verbatim>\<open>HTTPException(status_code, detail)\<close>, which the
  framework turns into an error response, or any other Python exception, kept as its
  text \<^verbatim>\<open>str(e)\<close>. The text of an \<^verbatim>\<open>HTTPException\<close> is its status code and its detail, as
  Starlette prints it; none of the \<^verbatim>\<open>try\<close> blocks that take \<^verbatim>\<open>str(e)\<close> raises one.
\<close>

datatype exn = HTTPException int string | Exn string

fun str_exn :: "exn \<Rightarrow> string" where
  "str_exn (Exn msg) = msg"
| "str_exn (HTTPException code detail) = str_int code @ '': '' @ detail"

definition bindE :: "exn + 'a \<Rightarrow> ('a \<Rightarrow> exn + 'b) \<Rightarrow> exn + 'b" where
  "bindE x f = (case x of Inl e \<Rightarrow> Inl e | Inr v \<Rightarrow> f v)"

fun is_dict :: "json \<Rightarrow> bool" where
  "is_dict (JDict kvs) = True"
| "is_dict j = False"

fun type_name :: "json \<Rightarrow> string" where
  "type_name JNull = ''NoneType''"
| "type_name (JBool b) = ''bool''"
| "type_name (JInt i) = ''int''"
| "type_name (JFloat m e) = ''float''"
| "type_name (JStr s) = ''str''"
| "type_name (JList xs) = ''list''"
| "type_name (JDict kvs) = ''dict''"

text \<open>
  \<^verbatim>\<open>x.get(key, default)\<close>: on a dict the value stored under the key, or the default;
  on any other value Python raises \<^verbatim>\<open>AttributeError\<close>.
\<close>

fun py_get :: "json \<Rightarrow> string \<Rightarrow> json \<Rightarrow> exn + json" where
  "py_get (JDict kvs) k d = Inr (case map_of kvs k of Some v \<Rightarrow> v | None \<Rightarrow> d)"
| "py_get j k d =
     Inl (Exn (CHR 0x27 # type_name j @ CHR 0x27 # '' object has no attribute 'get'' @ [CHR 0x27]))"

text \<open>The chained reads \<^verbatim>\<open>cd.get(a, {}).get(b, d)\<close> and \<^verbatim>\<open>cd.get(a, {}).get(b, {}).get(c, d)\<close>.\<close>

definition get2 :: "json \<Rightarrow> string \<Rightarrow> string \<Rightarrow> json \<Rightarrow> exn + json" where
  "get2 cd a b d = bindE (py_get cd a (JDict [])) (\<lambda>m. py_get m b d)"

definition get3 :: "json \<Rightarrow> string \<Rightarrow> string \<Rightarrow> string \<Rightarrow> json \<Rightarrow> exn + json" where
  "get3 cd a b c d =
     bindE (py_get cd a (JDict [])) (\<lambda>m. bindE (py_get m b (JDict [])) (\<lambda>m'. py_get m' c d))"

section \<open>The configuration built by \<^verbatim>\<open>create_config_and_run_evaluation\<close>\<close>

definition default_attribute_groups :: json where
  "default_attribute_groups = JDict
     [(''sex'', JDict [(''privileged'', JList [JStr ''Male'']),
                       (''unprivileged'', JList [JStr ''Female''])]),
      (''race'', JDict [(''privileged'', JList [JStr ''White'']),
                        (''unprivileged'', JList [JStr ''Black'', JStr ''Other''])])]"

definition system_prompt :: string where
  "system_prompt = ''You are a strict classifier. You must answer with exactly one of these two strings: '>50K' or '<=50K'. No explanation. No formatting.''"

definition default_fairness_metrics :: json where
  "default_fairness_metrics =
     JList [JStr ''demographic_parity'', JStr ''equalized_odds'', JStr ''predictive_parity'']"

definition default_performance_metrics :: json where
  "default_performance_metrics =
     JList [JStr ''accuracy'', JStr ''precision'', JStr ''recall'', JStr ''f1_score'']"

text \<open>
  The dict display of lines 286--343. Python evaluates the entries in the order they are
  written, so the first read that raises decides the exception.
\<close>

definition materialize :: "json \<Rightarrow> exn + json" where
  "materialize config_data =
     bindE (get2 config_data ''dataset'' ''name'' (JStr ''adult-census-income'')) (\<lambda>ds_name.
     bindE (get2 config_data ''dataset'' ''source'' (JStr ''scikit-learn/adult-census-income'')) (\<lambda>ds_source.
     bindE (get2 config_data ''dataset'' ''split'' (JStr ''train'')) (\<lambda>ds_split.
     bindE (get2 config_data ''dataset'' ''platform'' (JStr ''huggingface'')) (\<lambda>ds_platform.
     bindE (py_get config_data ''protected_attributes'' (JList [JStr ''sex'', JStr ''race''])) (\<lambda>protected.
     bindE (py_get config_data ''target_column'' (JStr ''income'')) (\<lambda>target.
     bindE (get2 config_data ''sampling'' ''enabled'' (JBool True)) (\<lambda>s_enabled.
     bindE (get2 config_data ''sampling'' ''n_samples'' (JInt 50)) (\<lambda>s_n.
     bindE (get2 config_data ''sampling'' ''random_seed'' (JInt 42)) (\<lambda>s_seed.
     bindE (get3 config_data ''post_processing'' ''binary_mapping'' ''favorable_outcome'' (JStr ''>50K'')) (\<lambda>fav.
     bindE (get3 config_data ''post_processing'' ''binary_mapping'' ''unfavorable_outcome'' (JStr ''<=50K'')) (\<lambda>unfav.
     bindE (get2 config_data ''post_processing'' ''attribute_groups'' default_attribute_groups) (\<lambda>groups.
     bindE (get2 config_data ''model'' ''model_task'' (JStr ''binary_classification'')) (\<lambda>m_task.
     bindE (get2 config_data ''model'' ''label_behavior'' (JStr ''binary'')) (\<lambda>m_label.
     bindE (get2 config_data ''model'' ''model_id'' (JStr ''TinyLlama/TinyLlama-1.1B-Chat-v1.0'')) (\<lambda>m_id.
     bindE (get2 config_data ''metrics'' ''fairness'' default_fairness_metrics) (\<lambda>fairness.
     bindE (get2 config_data ''metrics'' ''performance'' default_performance_metrics) (\<lambda>performance.
     Inr (JDict
       [(''dataset'', JDict
           [(''name'', ds_name),
            (''source'', ds_source),
            (''split'', ds_split),
            (''platform'', ds_platform),
            (''protected_attributes'', protected),
            (''target_column'', target),
            (''sampling'', JDict
               [(''enabled'', s_enabled),
                (''n_samples'', s_n),
                (''random_seed'', s_seed)])]),
        (''post_processing'', JDict
           [(''binary_mapping'', JDict
               [(''favorable_outcome'', fav),
                (''unfavorable_outcome'', unfav)]),
            (''attribute_groups'', groups)]),
        (''model'', JDict
           [(''model_task'', m_task),
            (''label_behavior'', m_label),
            (''huggingface'', JDict
               [(''enabled'', JBool True),
                (''model_id'', m_id),
                (''device'', JStr ''cuda''),
                (''max_new_tokens'', JInt 50),
                (''temperature'', JFloat 7 1),
                (''top_p'', JFloat 9 1),
                (''system_prompt'', JStr system_prompt)])]),
        (''metrics'', JDict
           [(''fairness'', JDict
               [(''enabled'', JBool True),
                (''metrics'', fairness)]),
            (''performance'', JDict
               [(''enabled'', JBool True),
                (''metrics'', performance)])]),
        (''artifacts'', JDict
           [(''inference_results_path'', JStr ''artifacts/cleaned_inference_results.csv''),
            (''postprocessed_results_path'', JStr ''artifacts/postprocessed_results.csv'')])]))))))))))))))))))"


subsection \<open>Reading the configuration by paths\<close>

text \<open>
  The value found in nested dicts along a path of keys, when every step exists. The
  default values of the source (the second arguments of its \<^verbatim>\<open>get\<close> calls), written
  out as one dict, are the default template.
\<close>

fun lookup_path :: "json \<Rightarrow> string list \<Rightarrow> json option" where
  "lookup_path j [] = Some j"
| "lookup_path (JDict kvs) (k # ks) =
     (case map_of kvs k of Some v \<Rightarrow> lookup_path v ks | None \<Rightarrow> None)"
| "lookup_path j (k # ks) = None"

definition slot_value :: "json \<Rightarrow> string list \<Rightarrow> json \<Rightarrow> json" where
  "slot_value cd p d = (case lookup_path cd p of Some v \<Rightarrow> v | None \<Rightarrow> d)"

definition slot_ok :: "json \<Rightarrow> string list \<Rightarrow> bool" where
  "slot_ok cd p = (case lookup_path cd p of Some v \<Rightarrow> is_dict v | None \<Rightarrow> True)"

text \<open>The places of \<^verbatim>\<open>config_data\<close> that the source reads with a further \<^verbatim>\<open>.get\<close>.\<close>

definition mapping_slots :: "string list list" where
  "mapping_slots =
     [[], [''dataset''], [''sampling''], [''post_processing''],
      [''post_processing'', ''binary_mapping''], [''model''], [''metrics'']]"

definition slots_ok :: "json \<Rightarrow> bool" where
  "slots_ok cd = (\<forall>p \<in> set mapping_slots. slot_ok cd p)"

fun dict_set :: "string \<Rightarrow> json \<Rightarrow> (string \<times> json) list \<Rightarrow> (string \<times> json) list" where
  "dict_set k v [] = [(k, v)]"
| "dict_set k v ((k', v') # kvs) = (if k = k' then (k, v) # kvs else (k', v') # dict_set k v kvs)"

fun set_path :: "string list \<Rightarrow> json \<Rightarrow> json \<Rightarrow> json" where
  "set_path [] v j = v"
| "set_path (k # ks) v (JDict kvs) =
     JDict (dict_set k (set_path ks v (case map_of kvs k of Some c \<Rightarrow> c | None \<Rightarrow> JDict [])) kvs)"
| "set_path (k # ks) v j = j"

definition default_template :: json where
  "default_template = JDict
     [(''dataset'', JDict
         [(''name'', JStr ''adult-census-income''),
          (''source'', JStr ''scikit-learn/adult-census-income''),
          (''split'', JStr ''train''),
          (''platform'', JStr ''huggingface''),
          (''protected_attributes'', JList [JStr ''sex'', JStr ''race'']),
          (''target_column'', JStr ''income''),
          (''sampling'', JDict
             [(''enabled'', JBool True),
              (''n_samples'', JInt 50),
              (''random_seed'', JInt 42)])]),
      (''post_processing'', JDict
         [(''binary_mapping'', JDict
             [(''favorable_outcome'', JStr ''>50K''),
              (''unfavorable_outcome'', JStr ''<=50K'')]),
          (''attribute_groups'', default_attribute_groups)]),
      (''model'', JDict
         [(''model_task'', JStr ''binary_classification''),
          (''label_behavior'', JStr ''binary''),
          (''huggingface'', JDict
             [(''enabled'', JBool True),
              (''model_id'', JStr ''TinyLlama/TinyLlama-1.1B-Chat-v1.0''),
              (''device'', JStr ''cuda''),
              (''max_new_tokens'', JInt 50),
              (''temperature'', JFloat 7 1),
              (''top_p'', JFloat 9 1),
              (''system_prompt'', JStr system_prompt)])]),
      (''metrics'', JDict
         [(''fairness'', JDict
             [(''enabled'', JBool True),
              (''metrics'', default_fairness_metrics)]),
          (''performance'', JDict
             [(''enabled'', JBool True),
              (''metrics'', default_performance_metrics)])]),
      (''artifacts'', JDict
         [(''inference_results_path'', JStr ''artifacts/cleaned_inference_results.csv''),
          (''postprocessed_results_path'', JStr ''artifacts/postprocessed_results.csv'')])]"

text \<open>
  The slots of the configuration that a request can set: the path read in
  \<^verbatim>\<open>config_data\<close> and the path written in the configuration. The two differ for the
  protected attributes, the target column, the sampling block, the model id and the
  metric lists. Filling a slot writes the value found at its path in \<^verbatim>\<open>config_data\<close>,
  or else the value of the default template, at its path in the configuration.
\<close>

definition override_slots :: "(string list \<times> string list) list" where
  "override_slots =
     [([''dataset'', ''name''], [''dataset'', ''name'']),
      ([''dataset'', ''source''], [''dataset'', ''source'']),
      ([''dataset'', ''split''], [''dataset'', ''split'']),
      ([''dataset'', ''platform''], [''dataset'', ''platform'']),
      ([''protected_attributes''], [''dataset'', ''protected_attributes'']),
      ([''target_column''], [''dataset'', ''target_column'']),
      ([''sampling'', ''enabled''], [''dataset'', ''sampling'', ''enabled'']),
      ([''sampling'', ''n_samples''], [''dataset'', ''sampling'', ''n_samples'']),
      ([''sampling'', ''random_seed''], [''dataset'', ''sampling'', ''random_seed'']),
      ([''post_processing'', ''binary_mapping'', ''favorable_outcome''],
       [''post_processing'', ''binary_mapping'', ''favorable_outcome'']),
      ([''post_processing'', ''binary_mapping'', ''unfavorable_outcome''],
       [''post_processing'', ''binary_mapping'', ''unfavorable_outcome'']),
      ([''post_processing'', ''attribute_groups''], [''post_processing'', ''attribute_groups'']),
      ([''model'', ''model_task''], [''model'', ''model_task'']),
      ([''model'', ''label_behavior''], [''model'', ''label_behavior'']),
      ([''model'', ''model_id''], [''model'', ''huggingface'', ''model_id'']),
      ([''metrics'', ''fairness''], [''metrics'', ''fairness'', ''metrics'']),
      ([''metrics'', ''performance''], [''metrics'', ''performance'', ''metrics''])]"

definition template_value :: "string list \<Rightarrow> json" where
  "template_value p = slot_value default_template p JNull"

definition fill_slot :: "json \<Rightarrow> json \<Rightarrow> string list \<times> string list \<Rightarrow> json" where
  "fill_slot cd c sd = set_path (snd sd) (slot_value cd (fst sd) (template_value (snd sd))) c"

definition fill_slots :: "json \<Rightarrow> json" where
  "fill_slots cd = foldl (fill_slot cd) default_template override_slots"

text \<open>
  The deep merge that the specification names, written from its words: a dict of
  overrides is merged key by key into a dict of the template, a key the template lacks is
  added, and any other override value replaces what the template has.
\<close>

fun deep_merge :: "json \<Rightarrow> json \<Rightarrow> json" where
  "deep_merge (JDict t) (JDict ov) =
     JDict (map (\<lambda>(k, tv). (k, case map_of ov k of Some x \<Rightarrow> deep_merge tv x | None \<Rightarrow> tv)) t
            @ filter (\<lambda>(k, x). map_of t k = None) ov)"
| "deep_merge t x = x"


section \<open>HTTP responses\<close>

datatype response = Response int | JSONResponse int json

text \<open>
  The handlers of the controllers: \<^verbatim>\<open>except HTTPException as he: raise he\<close> followed by
  \<^verbatim>\<open>except Exception as e: raise HTTPException(500, prefix + str(e))\<close>, and the single
  \<^verbatim>\<open>except Exception\<close> of the submission, which also wraps an \<^verbatim>\<open>HTTPException\<close>.
\<close>

fun reraise_http :: "string \<Rightarrow> exn + 'a \<Rightarrow> exn + 'a" where
  "reraise_http prefix (Inr v) = Inr v"
| "reraise_http prefix (Inl (HTTPException code detail)) = Inl (HTTPException code detail)"
| "reraise_http prefix (Inl (Exn msg)) = Inl (HTTPException 500 (prefix @ msg))"

fun wrap_500 :: "string \<Rightarrow> exn + 'a \<Rightarrow> exn + 'a" where
  "wrap_500 prefix (Inr v) = Inr v"
| "wrap_500 prefix (Inl e) = Inl (HTTPException 500 (prefix @ str_exn e))"

section \<open>The transient status store and status polling\<close>

text \<open>
  Modelled from the spec: the helpers \<^verbatim>\<open>get_job_status\<close>, \<^verbatim>\<open>delete_job_status\<close> and
  \<^verbatim>\<open>set_job_status\<close> of \<^verbatim>\<open>database.redis\<close> are not among the sources. The store is a
  key-value map from job ids to payloads; the three helpers are its peek, its delete and
  its overwriting set.
\<close>

type_synonym job_store = "int \<rightharpoonup> json"

definition get_job_status :: "job_store \<Rightarrow> int \<Rightarrow> json option" where
  "get_job_status st job_id = st job_id"

definition delete_job_status :: "job_store \<Rightarrow> int \<Rightarrow> job_store" where
  "delete_job_status st job_id = st(job_id := None)"

definition set_job_status :: "job_store \<Rightarrow> int \<Rightarrow> json \<Rightarrow> job_store" where
  "set_job_status st job_id status_data = st(job_id \<mapsto> status_data)"

text \<open>\<^verbatim>\<open>get_upload_status\<close>, lines 77--86: the response and the store it leaves.\<close>

definition get_upload_status :: "int \<Rightarrow> string \<Rightarrow> job_store \<Rightarrow> response \<times> job_store" where
  "get_upload_status job_id tenant st =
     (case get_job_status st job_id of
        None \<Rightarrow> (Response 204, st)
      | Some v \<Rightarrow> (JSONResponse 200 v, delete_job_status st job_id))"

section \<open>The evaluation runner\<close>

text \<open>
  \<^verbatim>\<open>run_bias_fairness_evaluation\<close> talks to four collaborators: the record store
  (\<^verbatim>\<open>update_bias_fairness_evaluation_status\<close>, a crud function that is not among the
  sources), the operating system (\<^verbatim>\<open>os.chdir\<close>, \<^verbatim>\<open>subprocess.run\<close>), the file system (the
  results artifact) and the status store. What each of them does in one run is the
  environment of that run: \<open>None\<close> where a call returns, \<open>Some text\<close> where it raises an
  exception with that text.
\<close>

record env =
  executable :: string
  db_running_exn :: "string option"
  chdir_exn :: "string option"
  subprocess_result :: "string + int \<times> string"
  artifact :: "(string + json) option"
  db_terminal_exn :: "string option"
  db_handler_exn :: "string option"
  set_job_status_exn :: "string option"

text \<open>
  \<open>subprocess_result\<close> is the exception text of \<^verbatim>\<open>subprocess.run\<close>, or the return code and
  the captured standard error. \<open>artifact\<close> is \<open>None\<close> when
  \<^verbatim>\<open>artifacts/clean_results.json\<close> does not exist, \<open>Some (Inl text)\<close> when opening or
  \<^verbatim>\<open>json.load\<close> raises, \<open>Some (Inr r)\<close> when the file parses to \<open>r\<close>.

  A call of the record store's status update, with whether the store accepted it.
\<close>

datatype db_call =
  DbUpdate (call_eval_id: string) (call_status: string) (call_results: "json option")
    (call_tenant: string) (call_accepted: bool)

text \<open>
  The runner changes the working directory of the server process with \<^verbatim>\<open>os.chdir\<close> and
  never changes it back, so the directory is part of the state that a run leaves behind.
  A relative path names the file found by joining it to the working directory.
\<close>

definition path_join :: "string \<Rightarrow> string \<Rightarrow> string" where
  "path_join dir rel = dir @ ''/'' @ rel"

record world =
  jobs :: job_store
  db_calls :: "db_call list"
  launched :: "string list list"
  printed :: "string list"
  cwd :: string

definition update_bias_fairness_evaluation_status ::
  "string option \<Rightarrow> string \<Rightarrow> string \<Rightarrow> json option \<Rightarrow> string \<Rightarrow> world \<Rightarrow> (exn + unit) \<times> world" where
  "update_bias_fairness_evaluation_status outcome eval_id st results tenant w =
     (case outcome of
        None \<Rightarrow> (Inr (), w\<lparr>db_calls := db_calls w @ [DbUpdate eval_id st results tenant True]\<rparr>)
      | Some msg \<Rightarrow>
          (Inl (Exn msg), w\<lparr>db_calls := db_calls w @ [DbUpdate eval_id st results tenant False]\<rparr>))"

text \<open>\<^verbatim>\<open>update_job_status\<close>, lines 471--479: a failing write is printed, not raised.\<close>

definition update_job_status :: "env \<Rightarrow> int \<Rightarrow> json \<Rightarrow> world \<Rightarrow> world" where
  "update_job_status en job_id status_data w =
     (case set_job_status_exn en of
        None \<Rightarrow> w\<lparr>jobs := set_job_status (jobs w) job_id status_data\<rparr>
      | Some msg \<Rightarrow> w\<lparr>printed := printed w @ [''Failed to update job status: '' @ msg]\<rparr>)"

definition completed_entry :: "string \<Rightarrow> json \<Rightarrow> json" where
  "completed_entry eval_id results = JDict
     [(''status'', JStr ''completed''),
      (''eval_id'', JStr eval_id),
      (''results'', results),
      (''message'', JStr ''Evaluation completed successfully'')]"

definition missing_results_entry :: "string \<Rightarrow> json" where
  "missing_results_entry eval_id = JDict
     [(''status'', JStr ''failed''),
      (''eval_id'', JStr eval_id),
      (''error'', JStr ''Results file not found''),
      (''message'', JStr ''Evaluation failed - results file not generated'')]"

definition cli_error_entry :: "string \<Rightarrow> string \<Rightarrow> json" where
  "cli_error_entry eval_id stderr = JDict
     [(''status'', JStr ''failed''),
      (''eval_id'', JStr eval_id),
      (''error'', JStr stderr),
      (''message'', JStr ''Evaluation failed - CLI execution error'')]"

definition exception_entry :: "string \<Rightarrow> string \<Rightarrow> json" where
  "exception_entry eval_id msg = JDict
     [(''status'', JStr ''failed''),
      (''eval_id'', JStr eval_id),
      (''error'', JStr msg),
      (''message'', JStr (''Evaluation failed: '' @ msg))]"

definition cli_argv :: "env \<Rightarrow> string \<Rightarrow> string list" where
  "cli_argv en config_path =
     [executable en, ''-m'', ''src.core.cli'', ''prompt'',
      ''--config'', config_path, ''--limit'', ''50'',
      ''--output'', ''artifacts/clean_results.json'']"

text \<open>
  A terminal step of the \<^verbatim>\<open>try\<close> block: the status update, then, when it returned, the
  status entry.
\<close>

definition finish :: "env \<Rightarrow> int \<Rightarrow> string \<Rightarrow> string \<Rightarrow> string \<Rightarrow> json option \<Rightarrow> json \<Rightarrow> world
    \<Rightarrow> (exn + unit) \<times> world" where
  "finish en job_id eval_id tenant st results entry w =
     (case update_bias_fairness_evaluation_status (db_terminal_exn en) eval_id st results tenant w of
        (Inl e, w') \<Rightarrow> (Inl e, w')
      | (Inr u, w') \<Rightarrow> (Inr (), update_job_status en job_id entry w'))"

text \<open>The \<^verbatim>\<open>try\<close> block, lines 399--457.\<close>

definition run_body :: "env \<Rightarrow> int \<Rightarrow> string \<Rightarrow> string \<Rightarrow> string \<Rightarrow> world \<Rightarrow> (exn + unit) \<times> world" where
  "run_body en job_id config_path eval_id tenant w =
     (case update_bias_fairness_evaluation_status (db_running_exn en) eval_id ''running'' None tenant w of
        (Inl e, w1) \<Rightarrow> (Inl e, w1)
      | (Inr u, w1) \<Rightarrow>
          (case chdir_exn en of
             Some msg \<Rightarrow> (Inl (Exn msg), w1)
           | None \<Rightarrow>
               (let w2 = w1\<lparr>cwd := path_join (cwd w1) ''BiasAndFairnessModule'',
                           launched := launched w1 @ [cli_argv en config_path]\<rparr> in
                case subprocess_result en of
                  Inl msg \<Rightarrow> (Inl (Exn msg), w2)
                | Inr (returncode, stderr) \<Rightarrow>
                    if returncode = 0 then
                      (case artifact en of
                         Some (Inr results) \<Rightarrow>
                           finish en job_id eval_id tenant ''completed'' (Some results)
                             (completed_entry eval_id results) w2
                       | Some (Inl msg) \<Rightarrow> (Inl (Exn msg), w2)
                       | None \<Rightarrow>
                           finish en job_id eval_id tenant ''failed'' None
                             (missing_results_entry eval_id) w2)
                    else
                      finish en job_id eval_id tenant ''failed'' None
                        (cli_error_entry eval_id stderr) w2)))"

text \<open>
  The whole function, with its \<^verbatim>\<open>except Exception as e\<close> (lines 459--469). \<open>Inl e\<close> is an
  exception that leaves the function, that is, the background task.
\<close>

definition run_bias_fairness_evaluation ::
  "env \<Rightarrow> int \<Rightarrow> string \<Rightarrow> string \<Rightarrow> string \<Rightarrow> world \<Rightarrow> (exn + unit) \<times> world" where
  "run_bias_fairness_evaluation en job_id config_path eval_id tenant w =
     (case run_body en job_id config_path eval_id tenant w of
        (Inr u, w') \<Rightarrow> (Inr (), w')
      | (Inl e, w') \<Rightarrow>
          (case update_bias_fairness_evaluation_status (db_handler_exn en) eval_id ''failed'' None tenant w' of
             (Inl e', w'') \<Rightarrow> (Inl e', w'')
           | (Inr u, w'') \<Rightarrow>
               (Inr (), update_job_status en job_id (exception_entry eval_id (str_exn e)) w'')))"

text \<open>What a run and its observers see of the record store.\<close>

definition is_terminal :: "string \<Rightarrow> bool" where
  "is_terminal st = (st = ''completed'' \<or> st = ''failed'')"

definition accepted_calls :: "world \<Rightarrow> db_call list" where
  "accepted_calls w = filter call_accepted (db_calls w)"

definition no_raise :: "env \<Rightarrow> bool" where
  "no_raise en =
     (db_running_exn en = None \<and> chdir_exn en = None \<and> db_terminal_exn en = None
      \<and> set_job_status_exn en = None)"

text \<open>
  The calls that a run adds to the record store's log, and the property that nothing is
  called after an accepted terminal update.
\<close>

definition new_calls :: "world \<Rightarrow> world \<Rightarrow> db_call list" where
  "new_calls w w' = drop (length (db_calls w)) (db_calls w')"

fun settled :: "db_call list \<Rightarrow> bool" where
  "settled [] = True"
| "settled (c # cs) =
     ((call_accepted c \<and> is_terminal (call_status c) \<longrightarrow> cs = []) \<and> settled cs)"

text \<open>
  A world with empty stores whose process was started in \<^verbatim>\<open>/app\<close>, and a run in which
  every call returns.
\<close>

definition world0 :: world where
  "world0 = \<lparr>jobs = Map.empty, db_calls = [], launched = [], printed = [], cwd = ''/app''\<rparr>"

definition env_ok :: env where
  "env_ok = \<lparr>executable = ''/usr/bin/python3'', db_running_exn = None, chdir_exn = None,
     subprocess_result = Inr (0, []), artifact = Some (Inr (JDict [(''accuracy'', JInt 1)])),
     db_terminal_exn = None, db_handler_exn = None, set_job_status_exn = None\<rparr>"

text \<open>The values under a key in a status entry.\<close>

fun field :: "json \<Rightarrow> string \<Rightarrow> json option" where
  "field (JDict kvs) k = map_of kvs k"
| "field j k = None"

fun field_values :: "json \<Rightarrow> json list" where
  "field_values (JDict kvs) = map snd kvs"
| "field_values j = []"


section \<open>Submission\<close>

definition config_dir :: string where
  "config_dir = ''BiasAndFairnessModule/configs''"

definition config_path :: string where
  "config_path = config_dir @ ''/'' @ ''config.yaml''"

text \<open>
  What \<^verbatim>\<open>yaml.dump\<close> writes and what \<^verbatim>\<open>json.dumps\<close> returns are kept as the value
  they serialise. \<open>Partial\<close> is the content of a file that \<^verbatim>\<open>open(config_path, 'w')\<close> has
  truncated and that the dump did not finish: empty or cut short.
\<close>

datatype serialized = YamlDump json | JsonDumps json | Partial

record evaluation =
  row_eval_id :: string
  row_model_name :: json
  row_dataset_name :: json
  row_model_task :: json
  row_label_behavior :: json
  row_config_data :: serialized
  row_tenant :: string

record task =
  task_job_id :: int
  task_config_path :: string
  task_eval_id :: string
  task_tenant :: string

text \<open>
  The files of the server are kept by their absolute path. The directories that
  \<^verbatim>\<open>mkdir\<close> creates hold no content and are not kept.
\<close>

record server =
  files :: "string \<rightharpoonup> serialized"
  evaluations :: "evaluation list"
  tasks :: "task list"

text \<open>
  The collaborators of one submission: creating the directory, opening the file (a
  failure leaves the file as it was), dumping the configuration into the opened file (a
  failure leaves it truncated), \<^verbatim>\<open>get_next_job_id\<close> (of \<^verbatim>\<open>database.redis\<close>), the clock of
  the event loop in whole seconds, and \<^verbatim>\<open>insert_bias_fairness_evaluation\<close> (a crud
  function).
\<close>

record submit_env =
  mkdir_exn :: "string option"
  open_exn :: "string option"
  dump_exn :: "string option"
  next_job_id :: "string + int"
  loop_time :: int
  insert_exn :: "string option"

definition raise_if :: "string option \<Rightarrow> exn + unit" where
  "raise_if outcome = (case outcome of None \<Rightarrow> Inr () | Some msg \<Rightarrow> Inl (Exn msg))"

definition new_eval_id :: "int \<Rightarrow> int \<Rightarrow> string" where
  "new_eval_id job_id t = ''eval_'' @ str_int job_id @ ''_'' @ str_int t"

definition accepted_response :: "int \<Rightarrow> string \<Rightarrow> response" where
  "accepted_response job_id eval_id = JSONResponse 202 (JDict
     [(''message'', JStr ''Configuration created and evaluation started''),
      (''job_id'', JInt job_id),
      (''eval_id'', JStr eval_id),
      (''config_path'', JStr config_path)])"

text \<open>
  The \<^verbatim>\<open>try\<close> block of \<^verbatim>\<open>create_config_and_run_evaluation\<close>, lines 281--386. \<open>wd\<close> is the
  working directory of the process when the request is handled: the relative
  \<^verbatim>\<open>config_path\<close> names the file \<open>path_join wd config_path\<close>. The runner is given the
  relative path itself, \<^verbatim>\<open>str(config_path)\<close>.
\<close>

definition submit_body ::
  "submit_env \<Rightarrow> json \<Rightarrow> string \<Rightarrow> string \<Rightarrow> server \<Rightarrow> (exn + response) \<times> server" where
  "submit_body en config_data tenant wd s =
     (case raise_if (mkdir_exn en) of Inl e \<Rightarrow> (Inl e, s) | Inr u \<Rightarrow>
     (case materialize config_data of Inl e \<Rightarrow> (Inl e, s) | Inr config \<Rightarrow>
     (case raise_if (open_exn en) of Inl e \<Rightarrow> (Inl e, s) | Inr u \<Rightarrow>
     (case raise_if (dump_exn en) of
        Inl e \<Rightarrow> (Inl e, s\<lparr>files := (files s)(path_join wd config_path \<mapsto> Partial)\<rparr>)
      | Inr u \<Rightarrow>
     (let s1 = s\<lparr>files := (files s)(path_join wd config_path \<mapsto> YamlDump config)\<rparr> in
      case next_job_id en of Inl msg \<Rightarrow> (Inl (Exn msg), s1) | Inr job_id \<Rightarrow>
     (let eval_id = new_eval_id job_id (loop_time en) in
      case get2 config_data ''model'' ''model_id'' (JStr ''Unknown Model'') of
        Inl e \<Rightarrow> (Inl e, s1) | Inr model_name \<Rightarrow>
     (case get2 config_data ''dataset'' ''name'' (JStr ''Unknown Dataset'') of
        Inl e \<Rightarrow> (Inl e, s1) | Inr dataset_name \<Rightarrow>
     (case get2 config_data ''model'' ''model_task'' (JStr ''binary_classification'') of
        Inl e \<Rightarrow> (Inl e, s1) | Inr model_task \<Rightarrow>
     (case get2 config_data ''model'' ''label_behavior'' (JStr ''binary'') of
        Inl e \<Rightarrow> (Inl e, s1) | Inr label_behavior \<Rightarrow>
     (case raise_if (insert_exn en) of Inl e \<Rightarrow> (Inl e, s1) | Inr u \<Rightarrow>
     (let s2 = s1\<lparr>evaluations := evaluations s1 @
                 [\<lparr>row_eval_id = eval_id, row_model_name = model_name,
                   row_dataset_name = dataset_name, row_model_task = model_task,
                   row_label_behavior = label_behavior,
                   row_config_data = JsonDumps config, row_tenant = tenant\<rparr>]\<rparr>;
          s3 = s2\<lparr>tasks := tasks s2 @
                 [\<lparr>task_job_id = job_id, task_config_path = config_path,
                   task_eval_id = eval_id, task_tenant = tenant\<rparr>]\<rparr>
      in (Inr (accepted_response job_id eval_id), s3))))))))))))"

definition create_config_and_run_evaluation ::
  "submit_env \<Rightarrow> json \<Rightarrow> string \<Rightarrow> string \<Rightarrow> server \<Rightarrow> (exn + response) \<times> server" where
  "create_config_and_run_evaluation en config_data tenant wd s =
     (case submit_body en config_data tenant wd s of
        (r, s') \<Rightarrow> (wrap_500 ''Failed to create config and start evaluation: '' r, s'))"

section \<open>Deleting an evaluation\<close>

text \<open>
  Modelled from the spec: \<^verbatim>\<open>delete_bias_fairness_evaluation\<close> of \<^verbatim>\<open>crud.bias_and_fairness\<close>
  is not among the sources. The record store maps an evaluation id and a tenant to a
  record; the delete is true if a record existed and was removed, false if absent.
\<close>

type_synonym record_store = "string \<times> string \<rightharpoonup> json"

definition delete_bias_fairness_evaluation ::
  "string \<Rightarrow> string \<Rightarrow> record_store \<Rightarrow> bool \<times> record_store" where
  "delete_bias_fairness_evaluation eval_id tenant db =
     (case db (eval_id, tenant) of
        None \<Rightarrow> (False, db)
      | Some r \<Rightarrow> (True, db((eval_id, tenant) := None)))"

text \<open>
  \<^verbatim>\<open>delete_bias_fairness_evaluation_controller\<close>, lines 518--538. \<open>db_exn\<close> is the
  exception, if any, that the database raises in this call.
\<close>

definition delete_body :: "string option \<Rightarrow> string \<Rightarrow> string \<Rightarrow> record_store
    \<Rightarrow> (exn + response) \<times> record_store" where
  "delete_body db_exn eval_id tenant db =
     (case db_exn of
        Some msg \<Rightarrow> (Inl (Exn msg), db)
      | None \<Rightarrow>
          (case delete_bias_fairness_evaluation eval_id tenant db of
             (result, db') \<Rightarrow>
               if \<not> result then
                 (Inl (HTTPException 404 (''Evaluation with ID '' @ eval_id @ '' not found'')), db')
               else
                 (Inr (JSONResponse 200
                    (JDict [(''message'', JStr (''Evaluation '' @ eval_id @ '' deleted successfully''))])),
                  db')))"

definition delete_bias_fairness_evaluation_controller ::
  "string option \<Rightarrow> string \<Rightarrow> string \<Rightarrow> record_store \<Rightarrow> (exn + response) \<times> record_store" where
  "delete_bias_fairness_evaluation_controller db_exn eval_id tenant db =
     (case delete_body db_exn eval_id tenant db of
        (r, db') \<Rightarrow> (reraise_http ''Failed to delete evaluation: '' r, db'))"

text \<open>A server with nothing stored, and a submission in which every call returns.\<close>

definition server0 :: server where
  "server0 = \<lparr>files = Map.empty, evaluations = [], tasks = []\<rparr>"

definition submit_env_ok :: submit_env where
  "submit_env_ok = \<lparr>mkdir_exn = None, open_exn = None, dump_exn = None, next_job_id = Inr 7,
     loop_time = 1234,
     insert_exn = None\<rparr>"

fun unhandled :: "exn + 'a \<Rightarrow> bool" where
  "unhandled (Inl (Exn msg)) = True"
| "unhandled r = False"

section \<open>Facts about the runner\<close>

lemma is_terminal_simps:
  "is_terminal ''completed''" "is_terminal ''failed''" "\<not> is_terminal ''running''"
  by (simp_all add: is_terminal_def)

lemma update_job_status_db_calls:
  "db_calls (update_job_status en j entry w) = db_calls w"
  by (simp add: update_job_status_def split: option.splits)

lemma finish_fst: "fst (finish en j ev t st r entry w) = raise_if (db_terminal_exn en)"
  by (simp add: finish_def update_bias_fairness_evaluation_status_def raise_if_def
      split: option.splits)

lemma finish_db_calls:
  "db_calls (snd (finish en j ev t st r entry w)) =
     db_calls w @ [DbUpdate ev st r t (db_terminal_exn en = None)]"
  by (simp add: finish_def update_bias_fairness_evaluation_status_def update_job_status_db_calls
      split: option.splits)

text \<open>The calls of the try block: the update to running, then at most one terminal update.\<close>

lemma run_body_db_calls:
  "\<exists>rest. db_calls (snd (run_body en j cp ev t w)) =
            db_calls w @ DbUpdate ev ''running'' None t (db_running_exn en = None) # rest
     \<and> (rest = [] \<and> (\<exists>e. fst (run_body en j cp ev t w) = Inl e)
        \<or> (\<exists>st r. is_terminal st \<and> rest = [DbUpdate ev st r t (db_terminal_exn en = None)]
             \<and> db_running_exn en = None
             \<and> fst (run_body en j cp ev t w) = raise_if (db_terminal_exn en)))"
  by (simp add: run_body_def update_bias_fairness_evaluation_status_def Let_def
      finish_fst finish_db_calls is_terminal_simps
      split: option.splits sum.splits prod.splits)

text \<open>The exception handler, and the normal return.\<close>

lemma run_raised:
  assumes "run_body en j cp ev t w = (Inl e, wb)"
  shows "run_bias_fairness_evaluation en j cp ev t w =
    (case db_handler_exn en of
       None \<Rightarrow> (Inr (), update_job_status en j (exception_entry ev (str_exn e))
                  (wb\<lparr>db_calls := db_calls wb @ [DbUpdate ev ''failed'' None t True]\<rparr>))
     | Some msg \<Rightarrow> (Inl (Exn msg),
                  wb\<lparr>db_calls := db_calls wb @ [DbUpdate ev ''failed'' None t False]\<rparr>))"
  using assms
  by (simp add: run_bias_fairness_evaluation_def update_bias_fairness_evaluation_status_def
      split: option.splits)

lemma run_returned:
  assumes "run_body en j cp ev t w = (Inr u, wb)"
  shows "run_bias_fairness_evaluation en j cp ev t w = (Inr (), wb)"
  using assms by (simp add: run_bias_fairness_evaluation_def)

lemma run_db_calls:
  "db_calls (snd (run_bias_fairness_evaluation en j cp ev t w)) =
     db_calls (snd (run_body en j cp ev t w)) @
       (case fst (run_body en j cp ev t w) of
          Inl e \<Rightarrow> [DbUpdate ev ''failed'' None t (db_handler_exn en = None)]
        | Inr u \<Rightarrow> [])"
proof (cases "run_body en j cp ev t w")
  case (Pair r wb)
  show ?thesis
  proof (cases r)
    case (Inl e)
    with Pair show ?thesis
      by (simp add: run_raised update_job_status_db_calls split: option.splits)
  next
    case (Inr u)
    with Pair show ?thesis by (simp add: run_returned)
  qed
qed

text \<open>The four shapes of the calls of one run.\<close>

lemma run_new_calls:
  "new_calls w (snd (run_bias_fairness_evaluation en j cp ev t w)) =
      [DbUpdate ev ''running'' None t (db_running_exn en = None),
       DbUpdate ev ''failed'' None t (db_handler_exn en = None)]
   \<or> (\<exists>st r. is_terminal st \<and> db_running_exn en = None \<and> db_terminal_exn en = None
        \<and> new_calls w (snd (run_bias_fairness_evaluation en j cp ev t w)) =
            [DbUpdate ev ''running'' None t True, DbUpdate ev st r t True])
   \<or> (\<exists>st r. is_terminal st \<and> db_running_exn en = None \<and> db_terminal_exn en \<noteq> None
        \<and> new_calls w (snd (run_bias_fairness_evaluation en j cp ev t w)) =
            [DbUpdate ev ''running'' None t True, DbUpdate ev st r t False,
             DbUpdate ev ''failed'' None t (db_handler_exn en = None)])"
proof -
  obtain rest where
    calls: "db_calls (snd (run_body en j cp ev t w)) =
              db_calls w @ DbUpdate ev ''running'' None t (db_running_exn en = None) # rest"
    and shape: "rest = [] \<and> (\<exists>e. fst (run_body en j cp ev t w) = Inl e)
        \<or> (\<exists>st r. is_terminal st \<and> rest = [DbUpdate ev st r t (db_terminal_exn en = None)]
             \<and> db_running_exn en = None
             \<and> fst (run_body en j cp ev t w) = raise_if (db_terminal_exn en))"
    using run_body_db_calls [of en j cp ev t w] by blast
  from shape show ?thesis
  proof
    assume "rest = [] \<and> (\<exists>e. fst (run_body en j cp ev t w) = Inl e)"
    then show ?thesis
      using calls by (auto simp add: new_calls_def run_db_calls)
  next
    assume "\<exists>st r. is_terminal st \<and> rest = [DbUpdate ev st r t (db_terminal_exn en = None)]
             \<and> db_running_exn en = None
             \<and> fst (run_body en j cp ev t w) = raise_if (db_terminal_exn en)"
    then obtain st r where st: "is_terminal st"
      and rest: "rest = [DbUpdate ev st r t (db_terminal_exn en = None)]"
      and ok: "db_running_exn en = None"
      and res: "fst (run_body en j cp ev t w) = raise_if (db_terminal_exn en)"
      by blast
    show ?thesis
    proof (cases "db_terminal_exn en")
      case None
      with st rest ok res calls show ?thesis
        by (auto simp add: new_calls_def run_db_calls raise_if_def)
    next
      case (Some msg)
      with st rest ok res calls show ?thesis
        by (auto simp add: new_calls_def run_db_calls raise_if_def)
    qed
  qed
qed

lemmas run_defs = run_bias_fairness_evaluation_def run_body_def finish_def
  update_bias_fairness_evaluation_status_def update_job_status_def set_job_status_def

section \<open>The runner's outcomes\<close>

text \<open>
  C1. In a run in which every call to a collaborator returns, the external computation
  exits with code 0 and the results artifact exists and parses to \<open>results\<close>, the runner
  raises nothing, the record store accepts exactly the update to \<^verbatim>\<open>running\<close> and then the
  update to \<^verbatim>\<open>completed\<close> carrying \<open>results\<close>, and the status store holds under the job id
  an entry with status \<^verbatim>\<open>completed\<close>, the evaluation id and \<open>results\<close>.
\<close>

theorem run_success_completed:
  assumes "no_raise en"
    and "subprocess_result en = Inr (0, err)"
    and "artifact en = Some (Inr results)"
  shows "fst (run_bias_fairness_evaluation en job_id cp eval_id tenant w) = Inr ()
    \<and> new_calls w (snd (run_bias_fairness_evaluation en job_id cp eval_id tenant w)) =
        [DbUpdate eval_id ''running'' None tenant True,
         DbUpdate eval_id ''completed'' (Some results) tenant True]
    \<and> get_job_status (jobs (snd (run_bias_fairness_evaluation en job_id cp eval_id tenant w))) job_id =
        Some (completed_entry eval_id results)
    \<and> field (completed_entry eval_id results) ''status'' = Some (JStr ''completed'')
    \<and> field (completed_entry eval_id results) ''eval_id'' = Some (JStr eval_id)
    \<and> field (completed_entry eval_id results) ''results'' = Some results"
  using assms
  by (simp add: run_defs no_raise_def new_calls_def completed_entry_def get_job_status_def)

theorem run_success_completed_witness:
  "no_raise env_ok \<and> subprocess_result env_ok = Inr (0, [])
   \<and> artifact env_ok = Some (Inr (JDict [(''accuracy'', JInt 1)]))
   \<and> fst (run_bias_fairness_evaluation env_ok 7 config_path ''eval_7_1234'' ''acme'' world0) = Inr ()
   \<and> new_calls world0 (snd (run_bias_fairness_evaluation env_ok 7 config_path ''eval_7_1234'' ''acme'' world0)) =
        [DbUpdate ''eval_7_1234'' ''running'' None ''acme'' True,
         DbUpdate ''eval_7_1234'' ''completed'' (Some (JDict [(''accuracy'', JInt 1)])) ''acme'' True]
   \<and> get_job_status (jobs (snd (run_bias_fairness_evaluation env_ok 7 config_path ''eval_7_1234'' ''acme'' world0))) 7 =
        Some (completed_entry ''eval_7_1234'' (JDict [(''accuracy'', JInt 1)]))"
proof -
  have h1: "no_raise env_ok" by (simp add: no_raise_def env_ok_def)
  have h2: "subprocess_result env_ok = Inr (0, [])" by (simp add: env_ok_def)
  have h3: "artifact env_ok = Some (Inr (JDict [(''accuracy'', JInt 1)]))" by (simp add: env_ok_def)
  show ?thesis
    using h1 h2 h3 run_success_completed [OF h1 h2 h3, of 7 config_path "''eval_7_1234''" "''acme''" world0]
    by simp
qed

text \<open>
  C2, as stated, fails: the record store is given \<^verbatim>\<open>failed\<close> with no results and no
  reason, the same calls as after a process error, and no field of the status entry is
  the code \<^verbatim>\<open>missing_results\<close>; the entry says \<^verbatim>\<open>Results file not found\<close>.
\<close>

theorem missing_results_reason_code_counterexample:
  "db_calls (snd (run_bias_fairness_evaluation (env_ok\<lparr>artifact := None\<rparr>)
       7 config_path ''eval_7_1234'' ''acme'' world0)) =
     [DbUpdate ''eval_7_1234'' ''running'' None ''acme'' True,
      DbUpdate ''eval_7_1234'' ''failed'' None ''acme'' True]
   \<and> db_calls (snd (run_bias_fairness_evaluation (env_ok\<lparr>artifact := None\<rparr>)
       7 config_path ''eval_7_1234'' ''acme'' world0)) =
     db_calls (snd (run_bias_fairness_evaluation (env_ok\<lparr>subprocess_result := Inr (2, ''OOM'')\<rparr>)
       7 config_path ''eval_7_1234'' ''acme'' world0))
   \<and> jobs (snd (run_bias_fairness_evaluation (env_ok\<lparr>artifact := None\<rparr>)
       7 config_path ''eval_7_1234'' ''acme'' world0)) 7 =
     Some (JDict [(''status'', JStr ''failed''), (''eval_id'', JStr ''eval_7_1234''),
                  (''error'', JStr ''Results file not found''),
                  (''message'', JStr ''Evaluation failed - results file not generated'')])
   \<and> JStr ''missing_results'' \<notin> set (field_values (missing_results_entry ''eval_7_1234''))"
  by (simp add: run_defs env_ok_def world0_def missing_results_entry_def)

text \<open>
  C2, amended. In a run in which every call to a collaborator returns, the external
  computation exits with code 0 and the results artifact is absent, the record store
  accepts the update to \<^verbatim>\<open>running\<close> and then the update to \<^verbatim>\<open>failed\<close> with no results, and
  the status store holds under the job id a \<^verbatim>\<open>failed\<close> entry whose error is
  \<^verbatim>\<open>Results file not found\<close>; its message differs from the message of every entry written
  after a process error, so the two entries are never equal.
\<close>

theorem run_missing_results_failed:
  assumes "no_raise en"
    and "subprocess_result en = Inr (0, err)"
    and "artifact en = None"
  shows "fst (run_bias_fairness_evaluation en job_id cp eval_id tenant w) = Inr ()
    \<and> new_calls w (snd (run_bias_fairness_evaluation en job_id cp eval_id tenant w)) =
        [DbUpdate eval_id ''running'' None tenant True,
         DbUpdate eval_id ''failed'' None tenant True]
    \<and> get_job_status (jobs (snd (run_bias_fairness_evaluation en job_id cp eval_id tenant w))) job_id =
        Some (missing_results_entry eval_id)
    \<and> field (missing_results_entry eval_id) ''status'' = Some (JStr ''failed'')
    \<and> field (missing_results_entry eval_id) ''error'' = Some (JStr ''Results file not found'')
    \<and> field (missing_results_entry eval_id) ''message'' \<noteq> field (cli_error_entry eval_id' stderr) ''message''
    \<and> missing_results_entry eval_id \<noteq> cli_error_entry eval_id' stderr"
  using assms
  by (simp add: run_defs no_raise_def new_calls_def missing_results_entry_def cli_error_entry_def
      get_job_status_def)

theorem run_missing_results_failed_witness:
  "no_raise (env_ok\<lparr>artifact := None\<rparr>)
   \<and> subprocess_result (env_ok\<lparr>artifact := None\<rparr>) = Inr (0, [])
   \<and> artifact (env_ok\<lparr>artifact := None\<rparr>) = None
   \<and> get_job_status (jobs (snd (run_bias_fairness_evaluation (env_ok\<lparr>artifact := None\<rparr>)
        7 config_path ''eval_7_1234'' ''acme'' world0))) 7 = Some (missing_results_entry ''eval_7_1234'')
   \<and> missing_results_entry ''eval_7_1234'' \<noteq> cli_error_entry ''eval_7_1234'' ''Results file not found''"
proof -
  have h1: "no_raise (env_ok\<lparr>artifact := None\<rparr>)" by (simp add: no_raise_def env_ok_def)
  have h2: "subprocess_result (env_ok\<lparr>artifact := None\<rparr>) = Inr (0, [])" by (simp add: env_ok_def)
  have h3: "artifact (env_ok\<lparr>artifact := None\<rparr>) = None" by simp
  show ?thesis
    using h1 h2 run_missing_results_failed [OF h1 h2 h3, of 7 config_path "''eval_7_1234''" "''acme''" world0
        "''eval_7_1234''" "''Results file not found''"]
    by simp
qed

text \<open>
  C3, as stated, fails: after exit code 2 with standard error \<^verbatim>\<open>OOM\<close> the record store is
  given \<^verbatim>\<open>running\<close> and then \<^verbatim>\<open>failed\<close>, both with no results, so the record holds no
  failure detail; the text \<^verbatim>\<open>OOM\<close> is in the status entry only.
\<close>

theorem process_error_record_detail_counterexample:
  "map call_results (db_calls (snd (run_bias_fairness_evaluation
       (env_ok\<lparr>subprocess_result := Inr (2, ''OOM'')\<rparr>) 7 config_path ''eval_7_1234'' ''acme'' world0))) =
     [None, None]
   \<and> map call_status (db_calls (snd (run_bias_fairness_evaluation
       (env_ok\<lparr>subprocess_result := Inr (2, ''OOM'')\<rparr>) 7 config_path ''eval_7_1234'' ''acme'' world0))) =
     [''running'', ''failed'']
   \<and> jobs (snd (run_bias_fairness_evaluation
       (env_ok\<lparr>subprocess_result := Inr (2, ''OOM'')\<rparr>) 7 config_path ''eval_7_1234'' ''acme'' world0)) 7 =
     Some (JDict [(''status'', JStr ''failed''), (''eval_id'', JStr ''eval_7_1234''),
                  (''error'', JStr ''OOM''),
                  (''message'', JStr ''Evaluation failed - CLI execution error'')])"
  by (simp add: run_defs env_ok_def world0_def cli_error_entry_def)

text \<open>
  C3, amended. In a run in which every call to a collaborator returns and the external
  computation exits with a nonzero code, the record store accepts the update to
  \<^verbatim>\<open>running\<close> and then the update to \<^verbatim>\<open>failed\<close> with no results, and the status store holds
  under the job id a \<^verbatim>\<open>failed\<close> entry whose error is the captured standard error,
  unchanged.
\<close>

theorem run_process_error_failed:
  assumes "no_raise en"
    and "subprocess_result en = Inr (returncode, stderr)"
    and "returncode \<noteq> 0"
  shows "fst (run_bias_fairness_evaluation en job_id cp eval_id tenant w) = Inr ()
    \<and> new_calls w (snd (run_bias_fairness_evaluation en job_id cp eval_id tenant w)) =
        [DbUpdate eval_id ''running'' None tenant True,
         DbUpdate eval_id ''failed'' None tenant True]
    \<and> get_job_status (jobs (snd (run_bias_fairness_evaluation en job_id cp eval_id tenant w))) job_id =
        Some (cli_error_entry eval_id stderr)
    \<and> field (cli_error_entry eval_id stderr) ''status'' = Some (JStr ''failed'')
    \<and> field (cli_error_entry eval_id stderr) ''eval_id'' = Some (JStr eval_id)
    \<and> field (cli_error_entry eval_id stderr) ''error'' = Some (JStr stderr)"
  using assms
  by (simp add: run_defs no_raise_def new_calls_def cli_error_entry_def get_job_status_def)

theorem run_process_error_failed_witness:
  "no_raise (env_ok\<lparr>subprocess_result := Inr (2, ''OOM'')\<rparr>)
   \<and> subprocess_result (env_ok\<lparr>subprocess_result := Inr (2, ''OOM'')\<rparr>) = Inr (2, ''OOM'')
   \<and> (2::int) \<noteq> 0
   \<and> new_calls world0 (snd (run_bias_fairness_evaluation (env_ok\<lparr>subprocess_result := Inr (2, ''OOM'')\<rparr>)
        7 config_path ''eval_7_1234'' ''acme'' world0)) =
        [DbUpdate ''eval_7_1234'' ''running'' None ''acme'' True,
         DbUpdate ''eval_7_1234'' ''failed'' None ''acme'' True]
   \<and> field (cli_error_entry ''eval_7_1234'' ''OOM'') ''error'' = Some (JStr ''OOM'')
   \<and> get_job_status (jobs (snd (run_bias_fairness_evaluation (env_ok\<lparr>subprocess_result := Inr (2, ''OOM'')\<rparr>)
        7 config_path ''eval_7_1234'' ''acme'' world0))) 7 = Some (cli_error_entry ''eval_7_1234'' ''OOM'')"
proof -
  have h1: "no_raise (env_ok\<lparr>subprocess_result := Inr (2, ''OOM'')\<rparr>)"
    by (simp add: no_raise_def env_ok_def)
  have h2: "subprocess_result (env_ok\<lparr>subprocess_result := Inr (2, ''OOM'')\<rparr>) = Inr (2, ''OOM'')"
    by simp
  have h3: "(2::int) \<noteq> 0" by simp
  show ?thesis
    using h1 h2 run_process_error_failed [OF h1 h2 h3, of 7 config_path "''eval_7_1234''" "''acme''" world0]
    by simp
qed

text \<open>
  C7, as stated, fails twice. When the record store is unreachable both for the update to
  \<^verbatim>\<open>running\<close> and for the update of the handler, the second exception leaves the runner
  and no status entry is written. And the update of the handler carries no results: the
  exception text goes to the status entry only, not to the record.
\<close>

theorem handler_failure_counterexample:
  "fst (run_bias_fairness_evaluation
         (env_ok\<lparr>db_running_exn := Some ''connection refused'', db_handler_exn := Some ''connection refused''\<rparr>)
         7 config_path ''eval_7_1234'' ''acme'' world0) = Inl (Exn ''connection refused'')
   \<and> jobs (snd (run_bias_fairness_evaluation
         (env_ok\<lparr>db_running_exn := Some ''connection refused'', db_handler_exn := Some ''connection refused''\<rparr>)
         7 config_path ''eval_7_1234'' ''acme'' world0)) 7 = None
   \<and> db_calls (snd (run_bias_fairness_evaluation
         (env_ok\<lparr>chdir_exn := Some ''No such file or directory''\<rparr>)
         7 config_path ''eval_7_1234'' ''acme'' world0)) =
       [DbUpdate ''eval_7_1234'' ''running'' None ''acme'' True,
        DbUpdate ''eval_7_1234'' ''failed'' None ''acme'' True]"
  by (simp add: run_defs env_ok_def world0_def)

text \<open>
  C7, amended. Whenever the record store accepts the update of the handler, nothing leaves
  the runner. If the \<^verbatim>\<open>try\<close> block raised \<open>e\<close>, that update is \<^verbatim>\<open>failed\<close> with no results; a
  \<^verbatim>\<open>failed\<close> entry whose error is the text of \<open>e\<close> is then written under the job id, and
  when the status store refuses the write the failure is printed and the store is left
  as it was.
\<close>

theorem run_exception_caught:
  assumes "db_handler_exn en = None"
  shows "fst (run_bias_fairness_evaluation en job_id cp eval_id tenant w) = Inr ()
    \<and> (\<forall>e wb. run_body en job_id cp eval_id tenant w = (Inl e, wb) \<longrightarrow>
          db_calls (snd (run_bias_fairness_evaluation en job_id cp eval_id tenant w)) =
            db_calls wb @ [DbUpdate eval_id ''failed'' None tenant True]
        \<and> (set_job_status_exn en = None \<longrightarrow>
             jobs (snd (run_bias_fairness_evaluation en job_id cp eval_id tenant w)) =
               (jobs wb)(job_id \<mapsto> exception_entry eval_id (str_exn e)))
        \<and> (\<forall>msg. set_job_status_exn en = Some msg \<longrightarrow>
             jobs (snd (run_bias_fairness_evaluation en job_id cp eval_id tenant w)) = jobs wb
             \<and> printed (snd (run_bias_fairness_evaluation en job_id cp eval_id tenant w)) =
                 printed wb @ [''Failed to update job status: '' @ msg])
        \<and> field (exception_entry eval_id (str_exn e)) ''status'' = Some (JStr ''failed'')
        \<and> field (exception_entry eval_id (str_exn e)) ''error'' = Some (JStr (str_exn e)))"
proof (cases "run_body en job_id cp eval_id tenant w")
  case (Pair r wb)
  show ?thesis
  proof (cases r)
    case (Inl e)
    with Pair assms show ?thesis
      by (auto simp add: run_raised update_job_status_def set_job_status_def exception_entry_def
          split: option.splits)
  next
    case (Inr u)
    with Pair show ?thesis by (simp add: run_returned)
  qed
qed

theorem run_exception_caught_witness:
  "db_handler_exn (env_ok\<lparr>chdir_exn := Some ''No such file or directory'',
                          set_job_status_exn := Some ''redis down''\<rparr>) = None
   \<and> run_body (env_ok\<lparr>chdir_exn := Some ''No such file or directory'',
                       set_job_status_exn := Some ''redis down''\<rparr>)
        7 config_path ''eval_7_1234'' ''acme'' world0 =
       (Inl (Exn ''No such file or directory''),
        world0\<lparr>db_calls := [DbUpdate ''eval_7_1234'' ''running'' None ''acme'' True]\<rparr>)
   \<and> fst (run_bias_fairness_evaluation
        (env_ok\<lparr>chdir_exn := Some ''No such file or directory'', set_job_status_exn := Some ''redis down''\<rparr>)
        7 config_path ''eval_7_1234'' ''acme'' world0) = Inr ()
   \<and> db_calls (snd (run_bias_fairness_evaluation
        (env_ok\<lparr>chdir_exn := Some ''No such file or directory'', set_job_status_exn := Some ''redis down''\<rparr>)
        7 config_path ''eval_7_1234'' ''acme'' world0)) =
       [DbUpdate ''eval_7_1234'' ''running'' None ''acme'' True,
        DbUpdate ''eval_7_1234'' ''failed'' None ''acme'' True]
   \<and> printed (snd (run_bias_fairness_evaluation
        (env_ok\<lparr>chdir_exn := Some ''No such file or directory'', set_job_status_exn := Some ''redis down''\<rparr>)
        7 config_path ''eval_7_1234'' ''acme'' world0)) = [''Failed to update job status: redis down'']"
proof -
  have h1: "db_handler_exn (env_ok\<lparr>chdir_exn := Some ''No such file or directory'',
                          set_job_status_exn := Some ''redis down''\<rparr>) = None"
    by (simp add: env_ok_def)
  have h2: "run_body (env_ok\<lparr>chdir_exn := Some ''No such file or directory'',
                       set_job_status_exn := Some ''redis down''\<rparr>)
        7 config_path ''eval_7_1234'' ''acme'' world0 =
       (Inl (Exn ''No such file or directory''),
        world0\<lparr>db_calls := [DbUpdate ''eval_7_1234'' ''running'' None ''acme'' True]\<rparr>)"
    by (simp add: run_body_def update_bias_fairness_evaluation_status_def env_ok_def world0_def)
  have h3: "set_job_status_exn (env_ok\<lparr>chdir_exn := Some ''No such file or directory'',
                          set_job_status_exn := Some ''redis down''\<rparr>) = Some ''redis down''"
    by simp
  show ?thesis
    using h1 h2 h3 run_exception_caught [OF h1, of 7 config_path "''eval_7_1234''" "''acme''" world0]
    by (simp add: world0_def)
qed

text \<open>
  C9, as stated, fails. When the record store refuses the update to \<^verbatim>\<open>running\<close> and accepts
  the update of the handler, the only update applied is \<^verbatim>\<open>failed\<close>. When it refuses the
  update to \<^verbatim>\<open>completed\<close>, the runner issues two terminal updates. And when it refuses the
  update of the handler, the record is left in \<^verbatim>\<open>running\<close> and the exception leaves the
  runner.
\<close>

theorem lifecycle_counterexample:
  "accepted_calls (snd (run_bias_fairness_evaluation
       (env_ok\<lparr>db_running_exn := Some ''connection refused''\<rparr>)
       7 config_path ''eval_7_1234'' ''acme'' world0)) =
     [DbUpdate ''eval_7_1234'' ''failed'' None ''acme'' True]
   \<and> map call_status (db_calls (snd (run_bias_fairness_evaluation
       (env_ok\<lparr>db_terminal_exn := Some ''connection refused''\<rparr>)
       7 config_path ''eval_7_1234'' ''acme'' world0))) =
     [''running'', ''completed'', ''failed'']
   \<and> accepted_calls (snd (run_bias_fairness_evaluation
       (env_ok\<lparr>chdir_exn := Some ''No such file or directory'', db_handler_exn := Some ''connection refused''\<rparr>)
       7 config_path ''eval_7_1234'' ''acme'' world0)) =
     [DbUpdate ''eval_7_1234'' ''running'' None ''acme'' True]
   \<and> fst (run_bias_fairness_evaluation
       (env_ok\<lparr>chdir_exn := Some ''No such file or directory'', db_handler_exn := Some ''connection refused''\<rparr>)
       7 config_path ''eval_7_1234'' ''acme'' world0) = Inl (Exn ''connection refused'')"
  by (simp add: run_defs env_ok_def world0_def accepted_calls_def)

text \<open>
  C9, amended. In every run the first status update the runner issues is the one to
  \<^verbatim>\<open>running\<close>, every later one is to \<^verbatim>\<open>completed\<close> or \<^verbatim>\<open>failed\<close>, and no update follows a
  terminal update that the record store accepted. Whenever the store accepts the update to
  \<^verbatim>\<open>running\<close> and the update of the handler, the accepted updates are exactly \<^verbatim>\<open>running\<close>
  followed by one terminal update; whenever it refuses the update to \<^verbatim>\<open>running\<close> and
  accepts the update of the handler, the only accepted update is \<^verbatim>\<open>failed\<close>.
\<close>

theorem run_lifecycle_updates:
  "new_calls w (snd (run_bias_fairness_evaluation en job_id cp eval_id tenant w)) \<noteq> []
   \<and> call_status (hd (new_calls w (snd (run_bias_fairness_evaluation en job_id cp eval_id tenant w)))) = ''running''
   \<and> (\<forall>c \<in> set (tl (new_calls w (snd (run_bias_fairness_evaluation en job_id cp eval_id tenant w)))).
        is_terminal (call_status c))
   \<and> settled (new_calls w (snd (run_bias_fairness_evaluation en job_id cp eval_id tenant w)))
   \<and> (db_running_exn en = None \<and> db_handler_exn en = None \<longrightarrow>
        (\<exists>st r. is_terminal st
           \<and> filter call_accepted (new_calls w (snd (run_bias_fairness_evaluation en job_id cp eval_id tenant w))) =
               [DbUpdate eval_id ''running'' None tenant True, DbUpdate eval_id st r tenant True]))
   \<and> (db_running_exn en \<noteq> None \<and> db_handler_exn en = None \<longrightarrow>
        filter call_accepted (new_calls w (snd (run_bias_fairness_evaluation en job_id cp eval_id tenant w))) =
          [DbUpdate eval_id ''failed'' None tenant True])"
proof -
  let ?N = "new_calls w (snd (run_bias_fairness_evaluation en job_id cp eval_id tenant w))"
  consider
    (raised) "?N = [DbUpdate eval_id ''running'' None tenant (db_running_exn en = None),
                    DbUpdate eval_id ''failed'' None tenant (db_handler_exn en = None)]"
  | (finished) st r where "is_terminal st" "db_running_exn en = None"
      "?N = [DbUpdate eval_id ''running'' None tenant True, DbUpdate eval_id st r tenant True]"
  | (refused) st r where "is_terminal st"
      "db_running_exn en = None"
      "?N = [DbUpdate eval_id ''running'' None tenant True, DbUpdate eval_id st r tenant False,
             DbUpdate eval_id ''failed'' None tenant (db_handler_exn en = None)]"
    using run_new_calls [of w en job_id cp eval_id tenant] by blast
  then show ?thesis
  proof cases
    case raised
    have "is_terminal ''failed''" by (rule is_terminal_simps)
    then have "db_running_exn en = None \<and> db_handler_exn en = None \<longrightarrow>
        (\<exists>st r. is_terminal st \<and> filter call_accepted ?N =
           [DbUpdate eval_id ''running'' None tenant True, DbUpdate eval_id st r tenant True])"
      using raised by auto
    then show ?thesis using raised by (simp add: is_terminal_simps)
  next
    case finished
    then have "\<exists>st r. is_terminal st \<and> filter call_accepted ?N =
           [DbUpdate eval_id ''running'' None tenant True, DbUpdate eval_id st r tenant True]"
      by auto
    then show ?thesis using finished by (simp add: is_terminal_simps)
  next
    case refused
    have "is_terminal ''failed''" by (rule is_terminal_simps)
    then have "db_handler_exn en = None \<longrightarrow>
        (\<exists>st r. is_terminal st \<and> filter call_accepted ?N =
           [DbUpdate eval_id ''running'' None tenant True, DbUpdate eval_id st r tenant True])"
      using refused by auto
    then show ?thesis using refused by (simp add: is_terminal_simps)
  qed
qed

theorem run_lifecycle_updates_witness:
  "db_running_exn (env_ok\<lparr>artifact := Some (Inl ''Expecting value'')\<rparr>) = None
   \<and> db_handler_exn (env_ok\<lparr>artifact := Some (Inl ''Expecting value'')\<rparr>) = None
   \<and> call_status (hd (new_calls world0 (snd (run_bias_fairness_evaluation
        (env_ok\<lparr>artifact := Some (Inl ''Expecting value'')\<rparr>) 7 config_path ''eval_7_1234'' ''acme'' world0)))) = ''running''
   \<and> settled (new_calls world0 (snd (run_bias_fairness_evaluation
        (env_ok\<lparr>artifact := Some (Inl ''Expecting value'')\<rparr>) 7 config_path ''eval_7_1234'' ''acme'' world0)))
   \<and> length (filter call_accepted (new_calls world0 (snd (run_bias_fairness_evaluation
        (env_ok\<lparr>artifact := Some (Inl ''Expecting value'')\<rparr>) 7 config_path ''eval_7_1234'' ''acme'' world0)))) = 2
   \<and> db_running_exn (env_ok\<lparr>db_running_exn := Some ''connection refused''\<rparr>) \<noteq> None
   \<and> db_handler_exn (env_ok\<lparr>db_running_exn := Some ''connection refused''\<rparr>) = None
   \<and> filter call_accepted (new_calls world0 (snd (run_bias_fairness_evaluation
        (env_ok\<lparr>db_running_exn := Some ''connection refused''\<rparr>) 7 config_path ''eval_7_1234'' ''acme'' world0))) =
       [DbUpdate ''eval_7_1234'' ''failed'' None ''acme'' True]"
proof -
  have h1: "db_running_exn (env_ok\<lparr>artifact := Some (Inl ''Expecting value'')\<rparr>) = None"
    by (simp add: env_ok_def)
  have h2: "db_handler_exn (env_ok\<lparr>artifact := Some (Inl ''Expecting value'')\<rparr>) = None"
    by (simp add: env_ok_def)
  have h3: "db_running_exn (env_ok\<lparr>db_running_exn := Some ''connection refused''\<rparr>) \<noteq> None"
    by simp
  have h4: "db_handler_exn (env_ok\<lparr>db_running_exn := Some ''connection refused''\<rparr>) = None"
    by (simp add: env_ok_def)
  have a: "call_status (hd (new_calls world0 (snd (run_bias_fairness_evaluation
        (env_ok\<lparr>artifact := Some (Inl ''Expecting value'')\<rparr>) 7 config_path ''eval_7_1234'' ''acme'' world0)))) = ''running''
   \<and> settled (new_calls world0 (snd (run_bias_fairness_evaluation
        (env_ok\<lparr>artifact := Some (Inl ''Expecting value'')\<rparr>) 7 config_path ''eval_7_1234'' ''acme'' world0)))
   \<and> length (filter call_accepted (new_calls world0 (snd (run_bias_fairness_evaluation
        (env_ok\<lparr>artifact := Some (Inl ''Expecting value'')\<rparr>) 7 config_path ''eval_7_1234'' ''acme'' world0)))) = 2"
    using h1 h2 run_lifecycle_updates [of world0 "env_ok\<lparr>artifact := Some (Inl ''Expecting value'')\<rparr>"
        7 config_path "''eval_7_1234''" "''acme''"]
    by auto
  have b: "filter call_accepted (new_calls world0 (snd (run_bias_fairness_evaluation
        (env_ok\<lparr>db_running_exn := Some ''connection refused''\<rparr>) 7 config_path ''eval_7_1234'' ''acme'' world0))) =
       [DbUpdate ''eval_7_1234'' ''failed'' None ''acme'' True]"
    using h3 h4 run_lifecycle_updates [of world0 "env_ok\<lparr>db_running_exn := Some ''connection refused''\<rparr>"
        7 config_path "''eval_7_1234''" "''acme''"]
    by blast
  from h1 h2 h3 h4 a b show ?thesis by blast
qed

section \<open>Status polling\<close>

text \<open>
  C4. Polling a job id whose entry is present answers 200 with the entry and deletes it, so
  that a peek or a second poll right after finds nothing and the second poll answers 204;
  polling a job id with no entry answers 204 and leaves the store as it was.
\<close>

theorem get_upload_status_consume_once:
  "(\<forall>v. get_job_status st job_id = Some v \<longrightarrow>
       fst (get_upload_status job_id tenant st) = JSONResponse 200 v
     \<and> snd (get_upload_status job_id tenant st) = st(job_id := None)
     \<and> get_job_status (snd (get_upload_status job_id tenant st)) job_id = None
     \<and> get_upload_status job_id tenant' (snd (get_upload_status job_id tenant st)) =
         (Response 204, snd (get_upload_status job_id tenant st)))
   \<and> (get_job_status st job_id = None \<longrightarrow>
         get_upload_status job_id tenant st = (Response 204, st))"
  by (simp add: get_upload_status_def get_job_status_def delete_job_status_def)

theorem get_upload_status_consume_once_witness:
  "get_job_status (set_job_status Map.empty 7 (JStr ''done'')) 7 = Some (JStr ''done'')
   \<and> fst (get_upload_status 7 ''acme'' (set_job_status Map.empty 7 (JStr ''done''))) =
       JSONResponse 200 (JStr ''done'')
   \<and> get_upload_status 7 ''acme'' (snd (get_upload_status 7 ''acme'' (set_job_status Map.empty 7 (JStr ''done'')))) =
       (Response 204, snd (get_upload_status 7 ''acme'' (set_job_status Map.empty 7 (JStr ''done''))))
   \<and> get_job_status Map.empty 8 = None
   \<and> get_upload_status 8 ''acme'' Map.empty = (Response 204, Map.empty)"
proof -
  have h1: "get_job_status (set_job_status Map.empty 7 (JStr ''done'')) 7 = Some (JStr ''done'')"
    by (simp add: get_job_status_def set_job_status_def)
  have h2: "get_job_status Map.empty 8 = None"
    by (simp add: get_job_status_def)
  show ?thesis
    using h1 h2
      get_upload_status_consume_once [of "set_job_status Map.empty 7 (JStr ''done'')" 7 "''acme''" "''acme''"]
      get_upload_status_consume_once [of Map.empty 8 "''acme''" "''acme''"]
    by blast
qed

section \<open>Deleting an evaluation\<close>

text \<open>
  C8. When the database raises nothing, deleting an evaluation that exists for the tenant
  removes it (the delete is true, the controller answers 200) and deleting one that does
  not exist for the tenant changes nothing (the delete is false, the controller raises the
  404 \<^verbatim>\<open>HTTPException\<close>). In every case the only exception that leaves the controller is an
  \<^verbatim>\<open>HTTPException\<close>.
\<close>

theorem delete_controller_outcomes:
  "(\<forall>r. db_exn = None \<and> db (eval_id, tenant) = Some r \<longrightarrow>
       fst (delete_bias_fairness_evaluation eval_id tenant db) = True
     \<and> delete_bias_fairness_evaluation_controller db_exn eval_id tenant db =
         (Inr (JSONResponse 200
            (JDict [(''message'', JStr (''Evaluation '' @ eval_id @ '' deleted successfully''))])),
          db((eval_id, tenant) := None)))
   \<and> (db_exn = None \<and> db (eval_id, tenant) = None \<longrightarrow>
       fst (delete_bias_fairness_evaluation eval_id tenant db) = False
     \<and> delete_bias_fairness_evaluation_controller db_exn eval_id tenant db =
         (Inl (HTTPException 404 (''Evaluation with ID '' @ eval_id @ '' not found'')), db))
   \<and> \<not> unhandled (fst (delete_bias_fairness_evaluation_controller db_exn eval_id tenant db))"
  by (auto simp add: delete_bias_fairness_evaluation_controller_def delete_body_def
      delete_bias_fairness_evaluation_def split: option.splits)

theorem delete_controller_outcomes_witness:
  "(None :: string option) = None
   \<and> [(''eval_7_1234'', ''acme'') \<mapsto> JStr ''row''] (''eval_7_1234'', ''acme'') = Some (JStr ''row'')
   \<and> [(''eval_7_1234'', ''acme'') \<mapsto> JStr ''row''] (''eval_7_1234'', ''globex'') = None
   \<and> snd (delete_bias_fairness_evaluation_controller None ''eval_7_1234'' ''acme''
        [(''eval_7_1234'', ''acme'') \<mapsto> JStr ''row'']) (''eval_7_1234'', ''acme'') = None
   \<and> delete_bias_fairness_evaluation_controller None ''eval_7_1234'' ''globex''
        [(''eval_7_1234'', ''acme'') \<mapsto> JStr ''row''] =
       (Inl (HTTPException 404 ''Evaluation with ID eval_7_1234 not found''),
        [(''eval_7_1234'', ''acme'') \<mapsto> JStr ''row''])"
proof -
  have h1: "[(''eval_7_1234'', ''acme'') \<mapsto> JStr ''row''] (''eval_7_1234'', ''acme'') = Some (JStr ''row'')"
    by simp
  have h2: "[(''eval_7_1234'', ''acme'') \<mapsto> JStr ''row''] (''eval_7_1234'', ''globex'') = None"
    by simp
  show ?thesis
    using h1 h2
      delete_controller_outcomes [of None "[(''eval_7_1234'', ''acme'') \<mapsto> JStr ''row'']"
        "''eval_7_1234''" "''acme''"]
      delete_controller_outcomes [of None "[(''eval_7_1234'', ''acme'') \<mapsto> JStr ''row'']"
        "''eval_7_1234''" "''globex''"]
    by simp
qed

section \<open>Facts about the configuration\<close>

lemma bindE_Inl [simp]: "bindE (Inl e) f = Inl e"
  by (simp add: bindE_def)

lemma bindE_Inr [simp]: "bindE (Inr v) f = f v"
  by (simp add: bindE_def)

lemma slot_ok_Nil: "slot_ok cd [] = is_dict cd"
  by (simp add: slot_ok_def)

lemma py_get_dict: "is_dict cd \<Longrightarrow> py_get cd k d = Inr (slot_value cd [k] d)"
  by (cases cd) (simp_all add: slot_value_def split: option.splits)

lemma py_get_not_dict: "\<not> is_dict cd \<Longrightarrow> \<exists>e. py_get cd k d = Inl e"
  by (cases cd) simp_all

lemma get2_not_dict: "\<not> is_dict cd \<Longrightarrow> \<exists>e. get2 cd a b d = Inl e"
  by (cases cd) (simp_all add: get2_def)

lemma get2_ok:
  "is_dict cd \<Longrightarrow> slot_ok cd [a] \<Longrightarrow> get2 cd a b d = Inr (slot_value cd [a, b] d)"
proof (cases cd)
  case (JDict kvs)
  assume ok: "slot_ok cd [a]"
  show ?thesis
  proof (cases "map_of kvs a")
    case None
    with JDict show ?thesis by (simp add: get2_def slot_value_def)
  next
    case (Some m)
    with JDict ok have "is_dict m" by (simp add: slot_ok_def)
    then obtain kvs' where "m = JDict kvs'" by (cases m) simp_all
    with JDict Some show ?thesis
      by (simp add: get2_def slot_value_def split: option.splits)
  qed
qed simp_all

lemma get2_bad:
  "is_dict cd \<Longrightarrow> \<not> slot_ok cd [a] \<Longrightarrow> \<exists>e. get2 cd a b d = Inl e"
proof (cases cd)
  case (JDict kvs)
  assume bad: "\<not> slot_ok cd [a]"
  with JDict obtain m where m: "map_of kvs a = Some m" "\<not> is_dict m"
    by (auto simp add: slot_ok_def split: option.splits)
  then have "\<exists>e. py_get m b d = Inl e" by (simp add: py_get_not_dict)
  with JDict m show ?thesis by (simp add: get2_def)
qed simp_all

lemma get3_ok:
  "is_dict cd \<Longrightarrow> slot_ok cd [a] \<Longrightarrow> slot_ok cd [a, b] \<Longrightarrow>
     get3 cd a b c d = Inr (slot_value cd [a, b, c] d)"
proof (cases cd)
  case (JDict kvs)
  assume ok1: "slot_ok cd [a]" and ok2: "slot_ok cd [a, b]"
  show ?thesis
  proof (cases "map_of kvs a")
    case None
    with JDict show ?thesis by (simp add: get3_def slot_value_def)
  next
    case (Some m)
    with JDict ok1 have "is_dict m" by (simp add: slot_ok_def)
    then obtain kvs' where m: "m = JDict kvs'" by (cases m) simp_all
    show ?thesis
    proof (cases "map_of kvs' b")
      case None
      with JDict Some m show ?thesis by (simp add: get3_def slot_value_def)
    next
      case inner: (Some m')
      with JDict Some m ok2 have "is_dict m'" by (simp add: slot_ok_def)
      then obtain kvs'' where "m' = JDict kvs''" by (cases m') simp_all
      with JDict Some m inner show ?thesis
        by (simp add: get3_def slot_value_def split: option.splits)
    qed
  qed
qed simp_all

lemma get3_bad:
  "is_dict cd \<Longrightarrow> slot_ok cd [a] \<Longrightarrow> \<not> slot_ok cd [a, b] \<Longrightarrow> \<exists>e. get3 cd a b c d = Inl e"
proof (cases cd)
  case (JDict kvs)
  assume ok1: "slot_ok cd [a]" and bad: "\<not> slot_ok cd [a, b]"
  from JDict bad obtain m where m: "map_of kvs a = Some m"
    by (auto simp add: slot_ok_def split: option.splits)
  with JDict ok1 have "is_dict m" by (simp add: slot_ok_def)
  then obtain kvs' where m': "m = JDict kvs'" by (cases m) simp_all
  with JDict bad m obtain x where x: "map_of kvs' b = Some x" "\<not> is_dict x"
    by (auto simp add: slot_ok_def split: option.splits)
  then have "\<exists>e. py_get x c d = Inl e" by (simp add: py_get_not_dict)
  with JDict m m' x show ?thesis by (simp add: get3_def)
qed simp_all

lemma get3_bad_outer:
  "is_dict cd \<Longrightarrow> \<not> slot_ok cd [a] \<Longrightarrow> \<exists>e. get3 cd a b c d = Inl e"
proof (cases cd)
  case (JDict kvs)
  assume bad: "\<not> slot_ok cd [a]"
  with JDict obtain m where m: "map_of kvs a = Some m" "\<not> is_dict m"
    by (auto simp add: slot_ok_def split: option.splits)
  then obtain e where "py_get m b (JDict []) = Inl e" using py_get_not_dict by blast
  with JDict m show ?thesis by (simp add: get3_def)
qed simp_all

lemma template_values:
  "template_value [''dataset'', ''name''] = JStr ''adult-census-income''"
  "template_value [''dataset'', ''source''] = JStr ''scikit-learn/adult-census-income''"
  "template_value [''dataset'', ''split''] = JStr ''train''"
  "template_value [''dataset'', ''platform''] = JStr ''huggingface''"
  "template_value [''dataset'', ''protected_attributes''] = JList [JStr ''sex'', JStr ''race'']"
  "template_value [''dataset'', ''target_column''] = JStr ''income''"
  "template_value [''dataset'', ''sampling'', ''enabled''] = JBool True"
  "template_value [''dataset'', ''sampling'', ''n_samples''] = JInt 50"
  "template_value [''dataset'', ''sampling'', ''random_seed''] = JInt 42"
  "template_value [''post_processing'', ''binary_mapping'', ''favorable_outcome''] = JStr ''>50K''"
  "template_value [''post_processing'', ''binary_mapping'', ''unfavorable_outcome''] = JStr ''<=50K''"
  "template_value [''post_processing'', ''attribute_groups''] = default_attribute_groups"
  "template_value [''model'', ''model_task''] = JStr ''binary_classification''"
  "template_value [''model'', ''label_behavior''] = JStr ''binary''"
  "template_value [''model'', ''huggingface'', ''model_id''] = JStr ''TinyLlama/TinyLlama-1.1B-Chat-v1.0''"
  "template_value [''metrics'', ''fairness'', ''metrics''] = default_fairness_metrics"
  "template_value [''metrics'', ''performance'', ''metrics''] = default_performance_metrics"
  by (simp_all add: template_value_def slot_value_def default_template_def)

text \<open>The slots filled one after the other give the dict that the source displays.\<close>

lemma fill_slots_eq:
  "fill_slots cd = JDict
       [(''dataset'', JDict
           [(''name'', slot_value cd [''dataset'', ''name''] (JStr ''adult-census-income'')),
            (''source'', slot_value cd [''dataset'', ''source''] (JStr ''scikit-learn/adult-census-income'')),
            (''split'', slot_value cd [''dataset'', ''split''] (JStr ''train'')),
            (''platform'', slot_value cd [''dataset'', ''platform''] (JStr ''huggingface'')),
            (''protected_attributes'', slot_value cd [''protected_attributes''] (JList [JStr ''sex'', JStr ''race''])),
            (''target_column'', slot_value cd [''target_column''] (JStr ''income'')),
            (''sampling'', JDict
               [(''enabled'', slot_value cd [''sampling'', ''enabled''] (JBool True)),
                (''n_samples'', slot_value cd [''sampling'', ''n_samples''] (JInt 50)),
                (''random_seed'', slot_value cd [''sampling'', ''random_seed''] (JInt 42))])]),
        (''post_processing'', JDict
           [(''binary_mapping'', JDict
               [(''favorable_outcome'',
                 slot_value cd [''post_processing'', ''binary_mapping'', ''favorable_outcome''] (JStr ''>50K'')),
                (''unfavorable_outcome'',
                 slot_value cd [''post_processing'', ''binary_mapping'', ''unfavorable_outcome''] (JStr ''<=50K''))]),
            (''attribute_groups'',
             slot_value cd [''post_processing'', ''attribute_groups''] default_attribute_groups)]),
        (''model'', JDict
           [(''model_task'', slot_value cd [''model'', ''model_task''] (JStr ''binary_classification'')),
            (''label_behavior'', slot_value cd [''model'', ''label_behavior''] (JStr ''binary'')),
            (''huggingface'', JDict
               [(''enabled'', JBool True),
                (''model_id'', slot_value cd [''model'', ''model_id''] (JStr ''TinyLlama/TinyLlama-1.1B-Chat-v1.0'')),
                (''device'', JStr ''cuda''),
                (''max_new_tokens'', JInt 50),
                (''temperature'', JFloat 7 1),
                (''top_p'', JFloat 9 1),
                (''system_prompt'', JStr system_prompt)])]),
        (''metrics'', JDict
           [(''fairness'', JDict
               [(''enabled'', JBool True),
                (''metrics'', slot_value cd [''metrics'', ''fairness''] default_fairness_metrics)]),
            (''performance'', JDict
               [(''enabled'', JBool True),
                (''metrics'', slot_value cd [''metrics'', ''performance''] default_performance_metrics)])]),
        (''artifacts'', JDict
           [(''inference_results_path'', JStr ''artifacts/cleaned_inference_results.csv''),
            (''postprocessed_results_path'', JStr ''artifacts/postprocessed_results.csv'')])]"
  by (simp add: fill_slots_def override_slots_def fill_slot_def template_values default_template_def)

lemma slots_ok_iff:
  "slots_ok cd \<longleftrightarrow> is_dict cd \<and> slot_ok cd [''dataset''] \<and> slot_ok cd [''sampling'']
     \<and> slot_ok cd [''post_processing''] \<and> slot_ok cd [''post_processing'', ''binary_mapping'']
     \<and> slot_ok cd [''model''] \<and> slot_ok cd [''metrics'']"
  by (simp add: slots_ok_def mapping_slots_def slot_ok_Nil)

lemma materialize_ok: "slots_ok cd \<Longrightarrow> materialize cd = Inr (fill_slots cd)"
  unfolding slots_ok_iff
  by (simp add: materialize_def get2_ok get3_ok py_get_dict fill_slots_eq)

lemma materialize_bad:
  assumes "\<not> slots_ok cd"
  shows "\<exists>e. materialize cd = Inl e"
proof (cases "is_dict cd")
  case False
  then obtain e where "get2 cd ''dataset'' ''name'' (JStr ''adult-census-income'') = Inl e"
    using get2_not_dict by blast
  then show ?thesis by (simp add: materialize_def)
next
  case d: True
  show ?thesis
  proof (cases "slot_ok cd [''dataset'']")
    case False
    then obtain e where "get2 cd ''dataset'' ''name'' (JStr ''adult-census-income'') = Inl e"
      using get2_bad [OF d] by blast
    then show ?thesis by (simp add: materialize_def)
  next
    case ds: True
    show ?thesis
    proof (cases "slot_ok cd [''sampling'']")
      case False
      then obtain e where "get2 cd ''sampling'' ''enabled'' (JBool True) = Inl e"
        using get2_bad [OF d] by blast
      then show ?thesis by (simp add: materialize_def get2_ok [OF d ds] py_get_dict [OF d])
    next
      case sa: True
      show ?thesis
      proof (cases "slot_ok cd [''post_processing'']")
        case False
        then obtain e where
          "get3 cd ''post_processing'' ''binary_mapping'' ''favorable_outcome'' (JStr ''>50K'') = Inl e"
          using get3_bad_outer [OF d] by blast
        then show ?thesis
          by (simp add: materialize_def get2_ok [OF d ds] get2_ok [OF d sa] py_get_dict [OF d])
      next
        case pp: True
        show ?thesis
        proof (cases "slot_ok cd [''post_processing'', ''binary_mapping'']")
          case False
          then obtain e where
            "get3 cd ''post_processing'' ''binary_mapping'' ''favorable_outcome'' (JStr ''>50K'') = Inl e"
            using get3_bad [OF d pp] by blast
          then show ?thesis
            by (simp add: materialize_def get2_ok [OF d ds] get2_ok [OF d sa] py_get_dict [OF d])
        next
          case bm: True
          show ?thesis
          proof (cases "slot_ok cd [''model'']")
            case False
            then obtain e where "get2 cd ''model'' ''model_task'' (JStr ''binary_classification'') = Inl e"
              using get2_bad [OF d] by blast
            then show ?thesis
              by (simp add: materialize_def get2_ok [OF d ds] get2_ok [OF d sa] get2_ok [OF d pp]
                  get3_ok [OF d pp bm] py_get_dict [OF d])
          next
            case mo: True
            with assms d ds sa pp bm have "\<not> slot_ok cd [''metrics'']"
              by (simp add: slots_ok_iff)
            then obtain e where "get2 cd ''metrics'' ''fairness'' default_fairness_metrics = Inl e"
              using get2_bad [OF d] by blast
            then show ?thesis
              by (simp add: materialize_def get2_ok [OF d ds] get2_ok [OF d sa] get2_ok [OF d pp]
                  get2_ok [OF d mo] get3_ok [OF d pp bm] py_get_dict [OF d])
          qed
        qed
      qed
    qed
  qed
qed

lemma materialize_empty: "materialize (JDict []) = Inr default_template"
  by (simp add: materialize_def get2_def get3_def default_template_def)

lemma slot_ok_iff: "slot_ok cd p \<longleftrightarrow> (\<forall>v. lookup_path cd p = Some v \<longrightarrow> is_dict v)"
  by (simp add: slot_ok_def split: option.splits)

section \<open>The configuration materializer\<close>

text \<open>
  C5, as stated, fails: the configuration is not a deep merge of the overrides onto the
  default template. An override written at the template's own path
  \<^verbatim>\<open>dataset.sampling.n_samples\<close> is ignored, where a deep merge puts it into the template;
  and the override \<^verbatim>\<open>sampling.n_samples\<close> lands at \<^verbatim>\<open>dataset.sampling.n_samples\<close>, where a
  deep merge adds a new top-level \<^verbatim>\<open>sampling\<close> dict.
\<close>

theorem materialize_not_deep_merge_counterexample:
  "materialize (JDict [(''dataset'', JDict [(''sampling'', JDict [(''n_samples'', JInt 10)])])])
     = Inr default_template
   \<and> deep_merge default_template
       (JDict [(''dataset'', JDict [(''sampling'', JDict [(''n_samples'', JInt 10)])])])
     = set_path [''dataset'', ''sampling'', ''n_samples''] (JInt 10) default_template
   \<and> set_path [''dataset'', ''sampling'', ''n_samples''] (JInt 10) default_template \<noteq> default_template
   \<and> materialize (JDict [(''sampling'', JDict [(''n_samples'', JInt 10)])])
     \<noteq> Inr (deep_merge default_template (JDict [(''sampling'', JDict [(''n_samples'', JInt 10)])]))"
  by (simp add: materialize_def get2_def get3_def default_template_def)

text \<open>
  C5, amended. The configuration is a function of the overrides that fills fixed slots of
  the default template: empty overrides give exactly the default template, the single
  override \<^verbatim>\<open>sampling.n_samples = v\<close> gives the default template with \<open>v\<close> at
  \<^verbatim>\<open>dataset.sampling.n_samples\<close>, and every configuration that is built is the default
  template with each slot of \<open>override_slots\<close> set to the value found at its path in the
  overrides, when there is one.
\<close>

theorem materialize_fills_slots:
  "materialize (JDict []) = Inr default_template
   \<and> materialize (JDict [(''sampling'', JDict [(''n_samples'', v)])]) =
       Inr (set_path [''dataset'', ''sampling'', ''n_samples''] v default_template)
   \<and> (\<forall>c. materialize cd = Inr c \<longrightarrow> c = fill_slots cd)"
proof -
  have "materialize (JDict [(''sampling'', JDict [(''n_samples'', v)])]) =
       Inr (set_path [''dataset'', ''sampling'', ''n_samples''] v default_template)"
    by (simp add: materialize_def get2_def get3_def default_template_def)
  moreover have "\<forall>c. materialize cd = Inr c \<longrightarrow> c = fill_slots cd"
  proof (cases "slots_ok cd")
    case True
    then show ?thesis by (simp add: materialize_ok)
  next
    case False
    then obtain e where "materialize cd = Inl e" using materialize_bad by blast
    then show ?thesis by simp
  qed
  ultimately show ?thesis by (simp add: materialize_empty)
qed

theorem materialize_fills_slots_witness:
  "materialize (JDict [(''model'', JDict [(''model_id'', JStr ''gpt2'')])]) =
     Inr (fill_slots (JDict [(''model'', JDict [(''model_id'', JStr ''gpt2'')])]))
   \<and> fill_slots (JDict [(''model'', JDict [(''model_id'', JStr ''gpt2'')])]) =
     set_path [''model'', ''huggingface'', ''model_id''] (JStr ''gpt2'') default_template"
proof -
  have h: "materialize (JDict [(''model'', JDict [(''model_id'', JStr ''gpt2'')])]) =
     Inr (set_path [''model'', ''huggingface'', ''model_id''] (JStr ''gpt2'') default_template)"
    by (simp add: materialize_def get2_def get3_def default_template_def)
  show ?thesis
    using h materialize_fills_slots [of "JInt 10" "JDict [(''model'', JDict [(''model_id'', JStr ''gpt2'')])]"]
    by simp
qed

text \<open>
  C6. Building the configuration raises exactly when one of the places read with a further
  \<^verbatim>\<open>.get\<close> (the request body itself, \<^verbatim>\<open>dataset\<close>, \<^verbatim>\<open>sampling\<close>, \<^verbatim>\<open>post_processing\<close>,
  \<^verbatim>\<open>post_processing.binary_mapping\<close>, \<^verbatim>\<open>model\<close>, \<^verbatim>\<open>metrics\<close>) is present and holds a value
  that is not a dict. A missing field never makes it raise; empty overrides build a
  configuration.
\<close>

theorem materialize_raises_iff:
  "((\<exists>e. materialize cd = Inl e) \<longleftrightarrow>
      (\<exists>p \<in> set mapping_slots. \<exists>v. lookup_path cd p = Some v \<and> \<not> is_dict v))
   \<and> (\<exists>c. materialize (JDict []) = Inr c)"
proof -
  have "(\<exists>e. materialize cd = Inl e) \<longleftrightarrow> \<not> slots_ok cd"
    using materialize_ok [of cd] materialize_bad [of cd] by auto
  also have "\<dots> \<longleftrightarrow> (\<exists>p \<in> set mapping_slots. \<exists>v. lookup_path cd p = Some v \<and> \<not> is_dict v)"
    by (auto simp add: slots_ok_def slot_ok_iff)
  finally show ?thesis by (simp add: materialize_empty)
qed

theorem materialize_raises_iff_witness:
  "[''dataset''] \<in> set mapping_slots
   \<and> lookup_path (JDict [(''dataset'', JList [JStr ''adult''])]) [''dataset''] = Some (JList [JStr ''adult''])
   \<and> \<not> is_dict (JList [JStr ''adult''])
   \<and> (\<exists>e. materialize (JDict [(''dataset'', JList [JStr ''adult''])]) = Inl e)"
proof -
  have h1: "[''dataset''] \<in> set mapping_slots" by (simp add: mapping_slots_def)
  have h2: "lookup_path (JDict [(''dataset'', JList [JStr ''adult''])]) [''dataset''] = Some (JList [JStr ''adult''])"
    by simp
  have h3: "\<not> is_dict (JList [JStr ''adult''])" by simp
  show ?thesis
    using h1 h2 h3 materialize_raises_iff [of "JDict [(''dataset'', JList [JStr ''adult''])]"]
    by blast
qed

section \<open>Facts about the submission\<close>

lemma config_path_eq: "config_path = ''BiasAndFairnessModule/configs/config.yaml''"
  by (simp add: config_path_def config_dir_def)

lemma wrap_500_Inr: "wrap_500 p r = Inr v \<longleftrightarrow> r = Inr v"
  by (cases r) simp_all

lemma submit_files:
  "p \<noteq> path_join wd config_path \<Longrightarrow>
     files (snd (create_config_and_run_evaluation en cd tenant wd s)) p = files s p"
  by (simp add: create_config_and_run_evaluation_def submit_body_def raise_if_def Let_def
      split: option.splits sum.splits prod.splits)

lemma submit_tasks:
  "tasks (snd (create_config_and_run_evaluation en cd tenant wd s)) = tasks s
   \<or> (\<exists>j ev. tasks (snd (create_config_and_run_evaluation en cd tenant wd s)) =
        tasks s @ [\<lparr>task_job_id = j, task_config_path = config_path, task_eval_id = ev,
                    task_tenant = tenant\<rparr>])"
  by (simp add: create_config_and_run_evaluation_def submit_body_def raise_if_def Let_def
      split: option.splits sum.splits prod.splits)

lemma submit_accepted:
  assumes "fst (create_config_and_run_evaluation en cd tenant wd s) = Inr resp"
  shows "\<exists>c job_id row.
      materialize cd = Inr c \<and> next_job_id en = Inr job_id
    \<and> resp = accepted_response job_id (new_eval_id job_id (loop_time en))
    \<and> files (snd (create_config_and_run_evaluation en cd tenant wd s)) =
        (files s)(path_join wd config_path \<mapsto> YamlDump c)
    \<and> evaluations (snd (create_config_and_run_evaluation en cd tenant wd s)) = evaluations s @ [row]
    \<and> row_eval_id row = new_eval_id job_id (loop_time en)
    \<and> row_config_data row = JsonDumps c \<and> row_tenant row = tenant
    \<and> tasks (snd (create_config_and_run_evaluation en cd tenant wd s)) =
        tasks s @ [\<lparr>task_job_id = job_id, task_config_path = config_path,
                    task_eval_id = new_eval_id job_id (loop_time en), task_tenant = tenant\<rparr>]"
  using assms
  by (auto simp add: create_config_and_run_evaluation_def submit_body_def raise_if_def Let_def
      wrap_500_Inr split: option.splits sum.splits prod.splits)

lemma submit_rejected:
  assumes "materialize cd = Inl e"
  shows "snd (create_config_and_run_evaluation en cd tenant wd s) = s"
    and "isl (fst (create_config_and_run_evaluation en cd tenant wd s))"
  using assms
  by (simp_all add: create_config_and_run_evaluation_def submit_body_def raise_if_def
      split: option.splits)

lemma submit_ok_accepted:
  assumes "slots_ok cd" and "mkdir_exn en = None" and "open_exn en = None" and "dump_exn en = None"
    and "insert_exn en = None" and "next_job_id en = Inr j"
  shows "fst (create_config_and_run_evaluation en cd tenant wd s) =
     Inr (accepted_response j (new_eval_id j (loop_time en)))"
  using assms unfolding slots_ok_iff
  by (simp add: create_config_and_run_evaluation_def submit_body_def raise_if_def Let_def
      materialize_ok slots_ok_iff get2_ok)

lemma submit_ok_files:
  assumes "slots_ok cd" and "mkdir_exn en = None" and "open_exn en = None" and "dump_exn en = None"
    and "insert_exn en = None" and "next_job_id en = Inr j"
  shows "files (snd (create_config_and_run_evaluation en cd tenant wd s)) =
     (files s)(path_join wd config_path \<mapsto> YamlDump (fill_slots cd))"
  using submit_accepted [OF submit_ok_accepted [OF assms, of tenant wd s]] materialize_ok [OF assms(1)]
  by auto

lemma run_ok_cwd:
  "cwd (snd (run_bias_fairness_evaluation env_ok j cp ev t w)) = path_join (cwd w) ''BiasAndFairnessModule''"
  by (simp add: run_bias_fairness_evaluation_def run_body_def finish_def
      update_bias_fairness_evaluation_status_def update_job_status_def env_ok_def)

section \<open>The shared configuration file\<close>

text \<open>
  C10, as stated, fails. The path is relative, and a run whose \<^verbatim>\<open>os.chdir\<close> succeeds leaves
  the process in \<^verbatim>\<open>/app/BiasAndFairnessModule\<close>: the next submission then writes
  \<^verbatim>\<open>/app/BiasAndFairnessModule/BiasAndFairnessModule/configs/config.yaml\<close> and the file of
  the first submission keeps the first configuration. And a submission whose overrides
  hold a list where \<^verbatim>\<open>dataset\<close> is read writes no file and schedules nothing.
\<close>

theorem submit_after_run_counterexample:
  "cwd (snd (run_bias_fairness_evaluation env_ok 7 config_path (new_eval_id 7 1234) ''acme'' world0)) =
     ''/app/BiasAndFairnessModule''
   \<and> files (snd (create_config_and_run_evaluation submit_env_ok (JDict []) ''acme'' ''/app'' server0))
       ''/app/BiasAndFairnessModule/configs/config.yaml'' = Some (YamlDump default_template)
   \<and> files (snd (create_config_and_run_evaluation (submit_env_ok\<lparr>next_job_id := Inr 8\<rparr>)
         (JDict [(''sampling'', JDict [(''n_samples'', JInt 10)])]) ''globex''
         (cwd (snd (run_bias_fairness_evaluation env_ok 7 config_path (new_eval_id 7 1234) ''acme'' world0)))
         (snd (create_config_and_run_evaluation submit_env_ok (JDict []) ''acme'' ''/app'' server0))))
       ''/app/BiasAndFairnessModule/configs/config.yaml'' = Some (YamlDump default_template)
   \<and> files (snd (create_config_and_run_evaluation (submit_env_ok\<lparr>next_job_id := Inr 8\<rparr>)
         (JDict [(''sampling'', JDict [(''n_samples'', JInt 10)])]) ''globex''
         (cwd (snd (run_bias_fairness_evaluation env_ok 7 config_path (new_eval_id 7 1234) ''acme'' world0)))
         (snd (create_config_and_run_evaluation submit_env_ok (JDict []) ''acme'' ''/app'' server0))))
       ''/app/BiasAndFairnessModule/BiasAndFairnessModule/configs/config.yaml'' =
       Some (YamlDump (set_path [''dataset'', ''sampling'', ''n_samples''] (JInt 10) default_template))
   \<and> snd (create_config_and_run_evaluation submit_env_ok (JDict [(''dataset'', JList [])]) ''acme'' ''/app''
         server0) = server0
   \<and> isl (fst (create_config_and_run_evaluation submit_env_ok (JDict [(''dataset'', JList [])]) ''acme''
         ''/app'' server0))"
proof -
  let ?cd' = "JDict [(''sampling'', JDict [(''n_samples'', JInt 10)])]"
  let ?en' = "submit_env_ok\<lparr>next_job_id := Inr 8\<rparr>"
  let ?s1 = "snd (create_config_and_run_evaluation submit_env_ok (JDict []) ''acme'' ''/app'' server0)"
  let ?w1 = "snd (run_bias_fairness_evaluation env_ok 7 config_path (new_eval_id 7 1234) ''acme'' world0)"
  have wd: "cwd ?w1 = ''/app/BiasAndFairnessModule''"
    by (simp add: run_ok_cwd world0_def path_join_def)
  have f1: "files ?s1 = (files server0)(path_join ''/app'' config_path \<mapsto> YamlDump (fill_slots (JDict [])))"
    by (rule submit_ok_files [where j = 7]) (simp_all add: slots_ok_iff slot_ok_def submit_env_ok_def)
  have f2: "files (snd (create_config_and_run_evaluation ?en' ?cd' ''globex'' ''/app/BiasAndFairnessModule'' ?s1)) =
      (files ?s1)(path_join ''/app/BiasAndFairnessModule'' config_path \<mapsto> YamlDump (fill_slots ?cd'))"
    by (rule submit_ok_files [where j = 8]) (simp_all add: slots_ok_iff slot_ok_def submit_env_ok_def)
  have m1: "fill_slots (JDict []) = default_template"
    using materialize_ok [of "JDict []"] materialize_empty
    by (simp add: slots_ok_iff slot_ok_def)
  have m2: "materialize ?cd' =
      Inr (set_path [''dataset'', ''sampling'', ''n_samples''] (JInt 10) default_template)"
    by (simp add: materialize_def get2_def get3_def default_template_def)
  have m2': "fill_slots ?cd' = set_path [''dataset'', ''sampling'', ''n_samples''] (JInt 10) default_template"
    using materialize_ok [of ?cd'] m2 by (simp add: slots_ok_iff slot_ok_def)
  have p1: "path_join ''/app'' config_path = ''/app/BiasAndFairnessModule/configs/config.yaml''"
    by (simp add: path_join_def config_path_eq)
  have p2: "path_join ''/app/BiasAndFairnessModule'' config_path =
      ''/app/BiasAndFairnessModule/BiasAndFairnessModule/configs/config.yaml''"
    by (simp add: path_join_def config_path_eq)
  obtain e where bad: "materialize (JDict [(''dataset'', JList [])]) = Inl e"
    using materialize_bad [of "JDict [(''dataset'', JList [])]"]
    by (auto simp add: slots_ok_iff slot_ok_def)
  have a: "files ?s1 ''/app/BiasAndFairnessModule/configs/config.yaml'' = Some (YamlDump default_template)"
    by (simp add: f1 m1 p1)
  have b: "files (snd (create_config_and_run_evaluation ?en' ?cd' ''globex'' ''/app/BiasAndFairnessModule'' ?s1))
       ''/app/BiasAndFairnessModule/configs/config.yaml'' = Some (YamlDump default_template)"
    by (simp add: f2 p2 f1 m1 p1)
  have c: "files (snd (create_config_and_run_evaluation ?en' ?cd' ''globex'' ''/app/BiasAndFairnessModule'' ?s1))
       ''/app/BiasAndFairnessModule/BiasAndFairnessModule/configs/config.yaml'' =
       Some (YamlDump (set_path [''dataset'', ''sampling'', ''n_samples''] (JInt 10) default_template))"
    by (simp add: f2 p2 m2')
  from wd a b c submit_rejected [OF bad, of submit_env_ok "''acme''" "''/app''" server0]
  show ?thesis by (simp only: wd)
qed

text \<open>
  C10, amended. The configuration path is the relative path
  \<^verbatim>\<open>BiasAndFairnessModule/configs/config.yaml\<close>, which names a file under the working
  directory of the process. Whatever the overrides and the tenant, a submission changes no
  file but that one and schedules the runner with that relative path only. An accepted
  submission leaves in that file the dump of its own configuration, whatever was there
  before, appends one evaluation row that stores the serialised configuration, and
  schedules one task. After a second accepted submission under the same working directory
  the file holds the second configuration and the first one is left in the first row. A
  submission whose overrides make the building of the configuration raise changes nothing.
\<close>

theorem submit_shared_config_path:
  "config_path = ''BiasAndFairnessModule/configs/config.yaml''
   \<and> (\<forall>p. p \<noteq> path_join wd config_path \<longrightarrow>
         files (snd (create_config_and_run_evaluation en cd tenant wd s)) p = files s p)
   \<and> (\<forall>t \<in> set (tasks (snd (create_config_and_run_evaluation en cd tenant wd s))) - set (tasks s).
         task_config_path t = config_path)
   \<and> (\<forall>resp. fst (create_config_and_run_evaluation en cd tenant wd s) = Inr resp \<longrightarrow>
         (\<exists>c job_id row.
            materialize cd = Inr c \<and> next_job_id en = Inr job_id
          \<and> files (snd (create_config_and_run_evaluation en cd tenant wd s)) (path_join wd config_path) =
              Some (YamlDump c)
          \<and> evaluations (snd (create_config_and_run_evaluation en cd tenant wd s)) = evaluations s @ [row]
          \<and> row_config_data row = JsonDumps c \<and> row_tenant row = tenant
          \<and> tasks (snd (create_config_and_run_evaluation en cd tenant wd s)) =
              tasks s @ [\<lparr>task_job_id = job_id, task_config_path = config_path,
                          task_eval_id = row_eval_id row, task_tenant = tenant\<rparr>]))
   \<and> (\<forall>resp resp' c.
         fst (create_config_and_run_evaluation en cd tenant wd s) = Inr resp
       \<and> materialize cd = Inr c
       \<and> fst (create_config_and_run_evaluation en' cd' tenant' wd
                (snd (create_config_and_run_evaluation en cd tenant wd s))) = Inr resp' \<longrightarrow>
         (\<exists>c'. materialize cd' = Inr c'
          \<and> files (snd (create_config_and_run_evaluation en' cd' tenant' wd
                (snd (create_config_and_run_evaluation en cd tenant wd s)))) (path_join wd config_path) =
              Some (YamlDump c')
          \<and> (\<exists>row \<in> set (evaluations (snd (create_config_and_run_evaluation en' cd' tenant' wd
                (snd (create_config_and_run_evaluation en cd tenant wd s))))).
                row_config_data row = JsonDumps c \<and> row_tenant row = tenant)))
   \<and> (\<forall>e. materialize cd = Inl e \<longrightarrow>
         snd (create_config_and_run_evaluation en cd tenant wd s) = s
       \<and> isl (fst (create_config_and_run_evaluation en cd tenant wd s)))"
proof (intro conjI allI impI)
  show "config_path = ''BiasAndFairnessModule/configs/config.yaml''"
    by (rule config_path_eq)
next
  fix e assume "materialize cd = Inl e"
  then show "snd (create_config_and_run_evaluation en cd tenant wd s) = s"
    by (rule submit_rejected)
next
  fix e assume "materialize cd = Inl e"
  then show "isl (fst (create_config_and_run_evaluation en cd tenant wd s))"
    by (rule submit_rejected)
next
  fix p assume "p \<noteq> path_join wd config_path"
  then show "files (snd (create_config_and_run_evaluation en cd tenant wd s)) p = files s p"
    by (rule submit_files)
next
  show "\<forall>t \<in> set (tasks (snd (create_config_and_run_evaluation en cd tenant wd s))) - set (tasks s).
         task_config_path t = config_path"
    using submit_tasks [of en cd tenant wd s] by auto
next
  fix resp assume "fst (create_config_and_run_evaluation en cd tenant wd s) = Inr resp"
  from submit_accepted [OF this]
  show "\<exists>c job_id row.
            materialize cd = Inr c \<and> next_job_id en = Inr job_id
          \<and> files (snd (create_config_and_run_evaluation en cd tenant wd s)) (path_join wd config_path) =
              Some (YamlDump c)
          \<and> evaluations (snd (create_config_and_run_evaluation en cd tenant wd s)) = evaluations s @ [row]
          \<and> row_config_data row = JsonDumps c \<and> row_tenant row = tenant
          \<and> tasks (snd (create_config_and_run_evaluation en cd tenant wd s)) =
              tasks s @ [\<lparr>task_job_id = job_id, task_config_path = config_path,
                          task_eval_id = row_eval_id row, task_tenant = tenant\<rparr>]"
    by (elim exE conjE) (intro exI conjI, auto)
next
  fix resp resp' c
  assume a: "fst (create_config_and_run_evaluation en cd tenant wd s) = Inr resp
       \<and> materialize cd = Inr c
       \<and> fst (create_config_and_run_evaluation en' cd' tenant' wd
                (snd (create_config_and_run_evaluation en cd tenant wd s))) = Inr resp'"
  let ?s1 = "snd (create_config_and_run_evaluation en cd tenant wd s)"
  let ?s2 = "snd (create_config_and_run_evaluation en' cd' tenant' wd ?s1)"
  from a submit_accepted [of en cd tenant wd s resp]
  obtain row where r1: "evaluations ?s1 = evaluations s @ [row]"
    and r2: "row_config_data row = JsonDumps c" and r3: "row_tenant row = tenant"
    by auto
  from a submit_accepted [of en' cd' tenant' wd ?s1 resp']
  obtain c' row' where m: "materialize cd' = Inr c'"
    and f: "files ?s2 = (files ?s1)(path_join wd config_path \<mapsto> YamlDump c')"
    and e: "evaluations ?s2 = evaluations ?s1 @ [row']"
    by auto
  have "row \<in> set (evaluations ?s2)" using r1 e by simp
  with m f r2 r3
  show "\<exists>c'. materialize cd' = Inr c'
          \<and> files ?s2 (path_join wd config_path) = Some (YamlDump c')
          \<and> (\<exists>row \<in> set (evaluations ?s2). row_config_data row = JsonDumps c \<and> row_tenant row = tenant)"
    by auto
qed

theorem submit_shared_config_path_witness:
  "''/app/other.yaml'' \<noteq> path_join ''/app'' config_path
   \<and> files (snd (create_config_and_run_evaluation submit_env_ok (JDict []) ''acme'' ''/app'' server0))
        ''/app/other.yaml'' = files server0 ''/app/other.yaml''
   \<and> fst (create_config_and_run_evaluation submit_env_ok (JDict []) ''acme'' ''/app'' server0) =
       Inr (accepted_response 7 (new_eval_id 7 1234))
   \<and> files (snd (create_config_and_run_evaluation submit_env_ok (JDict []) ''acme'' ''/app'' server0))
        (path_join ''/app'' config_path) = Some (YamlDump default_template)
   \<and> fst (create_config_and_run_evaluation (submit_env_ok\<lparr>next_job_id := Inr 8\<rparr>)
            (JDict [(''sampling'', JDict [(''n_samples'', JInt 10)])]) ''globex'' ''/app''
            (snd (create_config_and_run_evaluation submit_env_ok (JDict []) ''acme'' ''/app'' server0))) =
       Inr (accepted_response 8 (new_eval_id 8 1234))
   \<and> files (snd (create_config_and_run_evaluation (submit_env_ok\<lparr>next_job_id := Inr 8\<rparr>)
            (JDict [(''sampling'', JDict [(''n_samples'', JInt 10)])]) ''globex'' ''/app''
            (snd (create_config_and_run_evaluation submit_env_ok (JDict []) ''acme'' ''/app'' server0))))
        (path_join ''/app'' config_path) =
       Some (YamlDump (set_path [''dataset'', ''sampling'', ''n_samples''] (JInt 10) default_template))
   \<and> JsonDumps default_template \<in> row_config_data `
         set (evaluations (snd (create_config_and_run_evaluation (submit_env_ok\<lparr>next_job_id := Inr 8\<rparr>)
            (JDict [(''sampling'', JDict [(''n_samples'', JInt 10)])]) ''globex'' ''/app''
            (snd (create_config_and_run_evaluation submit_env_ok (JDict []) ''acme'' ''/app'' server0)))))
   \<and> snd (create_config_and_run_evaluation submit_env_ok (JDict [(''model'', JStr ''gpt2'')]) ''acme''
         ''/app'' server0) = server0"
proof -
  let ?cd' = "JDict [(''sampling'', JDict [(''n_samples'', JInt 10)])]"
  let ?en' = "submit_env_ok\<lparr>next_job_id := Inr 8\<rparr>"
  let ?s1 = "snd (create_config_and_run_evaluation submit_env_ok (JDict []) ''acme'' ''/app'' server0)"
  let ?s2 = "snd (create_config_and_run_evaluation ?en' ?cd' ''globex'' ''/app'' ?s1)"
  have h0: "''/app/other.yaml'' \<noteq> path_join ''/app'' config_path"
    by (simp add: path_join_def config_path_def config_dir_def)
  have h1: "fst (create_config_and_run_evaluation submit_env_ok (JDict []) ''acme'' ''/app'' server0) =
       Inr (accepted_response 7 (new_eval_id 7 1234))"
    using submit_ok_accepted [of "JDict []" submit_env_ok 7 "''acme''" "''/app''" server0]
    by (simp add: slots_ok_iff slot_ok_def submit_env_ok_def)
  have h2: "fst (create_config_and_run_evaluation ?en' ?cd' ''globex'' ''/app'' ?s1) =
       Inr (accepted_response 8 (new_eval_id 8 1234))"
    using submit_ok_accepted [of ?cd' ?en' 8 "''globex''" "''/app''" ?s1]
    by (simp add: slots_ok_iff slot_ok_def submit_env_ok_def)
  have m1: "materialize (JDict []) = Inr default_template" by (rule materialize_empty)
  have m2: "materialize ?cd' =
      Inr (set_path [''dataset'', ''sampling'', ''n_samples''] (JInt 10) default_template)"
    by (simp add: materialize_def get2_def get3_def default_template_def)
  note T = submit_shared_config_path [of "''/app''" submit_env_ok "JDict []" "''acme''" server0
      ?en' ?cd' "''globex''"]
  from T h0 have a: "files ?s1 ''/app/other.yaml'' = files server0 ''/app/other.yaml''" by blast
  from T h1 m1 have b: "files ?s1 (path_join ''/app'' config_path) = Some (YamlDump default_template)"
    by auto
  from T h1 h2 m1 have "\<exists>c'. materialize ?cd' = Inr c'
          \<and> files ?s2 (path_join ''/app'' config_path) = Some (YamlDump c')
          \<and> (\<exists>row \<in> set (evaluations ?s2).
                row_config_data row = JsonDumps default_template \<and> row_tenant row = ''acme'')"
    by blast
  with m2 have c: "files ?s2 (path_join ''/app'' config_path) =
       Some (YamlDump (set_path [''dataset'', ''sampling'', ''n_samples''] (JInt 10) default_template))
     \<and> JsonDumps default_template \<in> row_config_data ` set (evaluations ?s2)"
    by force
  obtain e where bad: "materialize (JDict [(''model'', JStr ''gpt2'')]) = Inl e"
    using materialize_bad [of "JDict [(''model'', JStr ''gpt2'')]"]
    by (auto simp add: slots_ok_iff slot_ok_def)
  have d: "snd (create_config_and_run_evaluation submit_env_ok (JDict [(''model'', JStr ''gpt2'')]) ''acme''
         ''/app'' server0) = server0"
    using bad submit_shared_config_path [of "''/app''" submit_env_ok "JDict [(''model'', JStr ''gpt2'')]"
        "''acme''" server0]
    by blast
  from h0 a h1 b h2 c d show ?thesis by blast
qed

end
